theory Spec2Isabelle
  imports Complex_Main "HOL-Library.List_Lexorder" "HOL-Library.Char_ord"
begin

section \<open>The calculation engine (core.py)\<close>

text \<open>
  Python floats are modelled as HOL reals: comparison, addition, multiplication, integer
  powers and the division and multiplication by \<open>1e6\<close> are the exact operations. Rounding,
  infinities and NaN are outside this model. A table is the Python value
  \<open>list[tuple[tuple[float, float], list[float]]]\<close>.
\<close>

type_synonym coeff_table = "((real \<times> real) \<times> real list) list"

text \<open>
  The exceptions the package raises. A \<open>ValueError\<close> of \<open>_select_coeffs\<close> has the message
  \<open>f"Value {x} out of range for Type {self._name} thermocouple"\<close>: it is kept as the two
  values the message is formatted from. A \<open>NotImplementedError\<close> and the \<open>ValueError\<close>
  of the registry carry their message text.
\<close>

datatype error =
    ValueError_out_of_range real string
  | NotImplementedError string
  | ValueError_not_supported string

text \<open>
  The attributes of a \<open>ThermocoupleType\<close> object (each \<open>self._x\<close> is the field \<open>x\<close>).
  \<open>_temp_to_seebeck\<close> and \<open>_temp_to_dsdt\<close> are always lists after \<open>__init__\<close>; the four
  leg tables are stored as given, \<open>None\<close> or a list; a correction function is \<open>None\<close> or
  a callable.
\<close>

record ThermocoupleType =
  name :: string
  temp_to_microvolt :: coeff_table
  microvolt_to_temp :: coeff_table
  temp_to_seebeck :: coeff_table
  temp_to_dsdt :: coeff_table
  temp_to_microvolt_pos_leg :: "coeff_table option"
  temp_to_microvolt_neg_leg :: "coeff_table option"
  temp_to_seebeck_pos_leg :: "coeff_table option"
  temp_to_seebeck_neg_leg :: "coeff_table option"
  microvolt_expo_function :: "(real \<Rightarrow> real) option"
  seebeck_expo_function :: "(real \<Rightarrow> real) option"
  dsdt_expo_function :: "(real \<Rightarrow> real) option"
  microvolt_neg_leg_expo_function :: "(real \<Rightarrow> real) option"

text \<open>Python truth value of an optional list: \<open>None\<close> and \<open>[]\<close> are false.\<close>

definition truthy :: "coeff_table option \<Rightarrow> bool" where
  "truthy t = (case t of None \<Rightarrow> False | Some l \<Rightarrow> l \<noteq> [])"

text \<open>The expression \<open>t or []\<close>.\<close>

definition or_empty :: "coeff_table option \<Rightarrow> coeff_table" where
  "or_empty t = (if truthy t then the t else [])"

text \<open>\<open>ThermocoupleType.__init__\<close>, with every defaulted argument passed explicitly.\<close>

definition ThermocoupleType_init ::
  "string \<Rightarrow> coeff_table \<Rightarrow> coeff_table \<Rightarrow> coeff_table option \<Rightarrow> coeff_table option \<Rightarrow>
   coeff_table option \<Rightarrow> coeff_table option \<Rightarrow> coeff_table option \<Rightarrow> coeff_table option \<Rightarrow>
   (real \<Rightarrow> real) option \<Rightarrow> (real \<Rightarrow> real) option \<Rightarrow> (real \<Rightarrow> real) option \<Rightarrow>
   (real \<Rightarrow> real) option \<Rightarrow> ThermocoupleType" where
  "ThermocoupleType_init nm t2uv uv2t sb dsdt pos_leg neg_leg sb_pos_leg sb_neg_leg
       uv_expo sb_expo dsdt_expo neg_leg_expo =
     \<lparr> name = nm,
       temp_to_microvolt = t2uv,
       microvolt_to_temp = uv2t,
       temp_to_seebeck = or_empty sb,
       temp_to_dsdt = or_empty dsdt,
       temp_to_microvolt_pos_leg = pos_leg,
       temp_to_microvolt_neg_leg = neg_leg,
       temp_to_seebeck_pos_leg = sb_pos_leg,
       temp_to_seebeck_neg_leg = sb_neg_leg,
       microvolt_expo_function = uv_expo,
       seebeck_expo_function = sb_expo,
       dsdt_expo_function = dsdt_expo,
       microvolt_neg_leg_expo_function = neg_leg_expo \<rparr>"

text \<open>
  \<open>_select_coeffs\<close>: the \<open>for\<close> loop over the table returns at the first entry with
  \<open>lo <= x <= hi\<close>; falling out of the loop raises.
\<close>

fun select_coeffs :: "ThermocoupleType \<Rightarrow> real \<Rightarrow> coeff_table \<Rightarrow> error + real list" where
  "select_coeffs self x [] = Inl (ValueError_out_of_range x (name self))"
| "select_coeffs self x (((lo, hi), coeffs) # tables) =
     (if lo \<le> x \<and> x \<le> hi then Inr coeffs else select_coeffs self x tables)"

text \<open>\<open>_polyval\<close>: \<open>sum(c * (x**i) for i, c in enumerate(coeffs))\<close>; it does not read \<open>self\<close>.\<close>

definition polyval :: "real list \<Rightarrow> real \<Rightarrow> real" where
  "polyval coeffs x = sum_list (map (\<lambda>(i, c). c * x ^ i) (enumerate 0 coeffs))"

text \<open>The statement \<open>if f: result += f(temp_c)\<close> for a correction function \<open>f\<close>.\<close>

definition add_expo :: "(real \<Rightarrow> real) option \<Rightarrow> real \<Rightarrow> real \<Rightarrow> real" where
  "add_expo f temp_c result = (case f of None \<Rightarrow> result | Some g \<Rightarrow> result + g temp_c)"

definition temperature_to_voltage :: "ThermocoupleType \<Rightarrow> real \<Rightarrow> error + real" where
  "temperature_to_voltage self temp_c =
     (case select_coeffs self temp_c (temp_to_microvolt self) of
        Inl e \<Rightarrow> Inl e
      | Inr coeffs \<Rightarrow>
          (let result = polyval coeffs temp_c;
               result = add_expo (microvolt_expo_function self) temp_c result
           in Inr (result / 1000000)))"

definition voltage_to_temperature :: "ThermocoupleType \<Rightarrow> real \<Rightarrow> error + real" where
  "voltage_to_temperature self v =
     (let microvolt = v * 1000000 in
      case select_coeffs self microvolt (microvolt_to_temp self) of
        Inl e \<Rightarrow> Inl e
      | Inr coeffs \<Rightarrow> Inr (polyval coeffs microvolt))"

definition temperature_to_seebeck :: "ThermocoupleType \<Rightarrow> real \<Rightarrow> error + real" where
  "temperature_to_seebeck self temp_c =
     (if temp_to_seebeck self = []
      then Inl (NotImplementedError (''Seebeck coefficient not implemented for Type '' @ name self))
      else case select_coeffs self temp_c (temp_to_seebeck self) of
        Inl e \<Rightarrow> Inl e
      | Inr coeffs \<Rightarrow>
          Inr (add_expo (seebeck_expo_function self) temp_c (polyval coeffs temp_c)))"

definition temperature_to_dsdt :: "ThermocoupleType \<Rightarrow> real \<Rightarrow> error + real" where
  "temperature_to_dsdt self temp_c =
     (if temp_to_dsdt self = []
      then Inl (NotImplementedError (''dSeebeck/dT not implemented for Type '' @ name self))
      else case select_coeffs self temp_c (temp_to_dsdt self) of
        Inl e \<Rightarrow> Inl e
      | Inr coeffs \<Rightarrow>
          Inr (add_expo (dsdt_expo_function self) temp_c (polyval coeffs temp_c)))"

definition temperature_to_volt_pos_leg :: "ThermocoupleType \<Rightarrow> real \<Rightarrow> error + real" where
  "temperature_to_volt_pos_leg self temp_c =
     (if \<not> truthy (temp_to_microvolt_pos_leg self)
      then Inl (NotImplementedError
                 (''Thermovoltage positive leg not implemented for Type '' @ name self))
      else case select_coeffs self temp_c (the (temp_to_microvolt_pos_leg self)) of
        Inl e \<Rightarrow> Inl e
      | Inr coeffs \<Rightarrow> Inr (polyval coeffs temp_c / 1000000))"

definition temperature_to_volt_neg_leg :: "ThermocoupleType \<Rightarrow> real \<Rightarrow> error + real" where
  "temperature_to_volt_neg_leg self temp_c =
     (if \<not> truthy (temp_to_microvolt_neg_leg self)
      then Inl (NotImplementedError
                 (''Thermovoltage negative leg not implemented for Type '' @ name self))
      else case select_coeffs self temp_c (the (temp_to_microvolt_neg_leg self)) of
        Inl e \<Rightarrow> Inl e
      | Inr coeffs \<Rightarrow>
          Inr (add_expo (microvolt_neg_leg_expo_function self) temp_c (polyval coeffs temp_c)
               / 1000000))"

definition temperature_to_seebeck_pos_leg :: "ThermocoupleType \<Rightarrow> real \<Rightarrow> error + real" where
  "temperature_to_seebeck_pos_leg self temp_c =
     (if \<not> truthy (temp_to_seebeck_pos_leg self)
      then Inl (NotImplementedError
                 (''Seebeck coefficient positive leg not implemented for Type '' @ name self))
      else case select_coeffs self temp_c (the (temp_to_seebeck_pos_leg self)) of
        Inl e \<Rightarrow> Inl e
      | Inr coeffs \<Rightarrow> Inr (polyval coeffs temp_c))"

definition temperature_to_seebeck_neg_leg :: "ThermocoupleType \<Rightarrow> real \<Rightarrow> error + real" where
  "temperature_to_seebeck_neg_leg self temp_c =
     (if \<not> truthy (temp_to_seebeck_neg_leg self)
      then Inl (NotImplementedError
                 (''Seebeck coefficient negative leg not implemented for Type '' @ name self))
      else case select_coeffs self temp_c (the (temp_to_seebeck_neg_leg self)) of
        Inl e \<Rightarrow> Inl e
      | Inr coeffs \<Rightarrow> Inr (polyval coeffs temp_c))"

definition voltage_to_temperature_with_reference ::
  "ThermocoupleType \<Rightarrow> real \<Rightarrow> real \<Rightarrow> error + real" where
  "voltage_to_temperature_with_reference self v_measured t_ref =
     (case temperature_to_voltage self t_ref of
        Inl e \<Rightarrow> Inl e
      | Inr v_ref \<Rightarrow>
          (let v_total = v_measured + v_ref in voltage_to_temperature self v_total))"

section \<open>The coefficient tables (types/)\<close>

text \<open>
  The tables of the six type modules at hand, under the names the registry imports them
  by. A literal \<open>m e-k\<close> of the source is written \<open>m / 10 ^ k\<close>, and \<open>m e k\<close> is
  \<open>m * 10 ^ k\<close>: the real number the decimal literal denotes.
\<close>

subsection \<open>types/type_b.py\<close>

definition B_TEMP_TO_MICROVOLT :: coeff_table where
  "B_TEMP_TO_MICROVOLT =
    [((0, 630.615),
      [0.000000000000,
       - 2.465081834600 / 10 ^ 1,
       5.904042117100 / 10 ^ 3,
       - 1.325793163600 / 10 ^ 6,
       1.566829190100 / 10 ^ 9,
       - 1.694452924000 / 10 ^ 12,
       6.299034709400 / 10 ^ 16]),
     ((630.615, 1820),
      [- 3.893816862100 * 10 ^ 3,
       2.857174747000 / 10 ^ 1,
       - 8.488510478500 / 10 ^ 5,
       1.578528016400 / 10 ^ 4,
       - 1.683534486400 / 10 ^ 7,
       1.110979401300 / 10 ^ 10,
       - 4.451543103300 / 10 ^ 14,
       9.897564082100 / 10 ^ 18,
       - 9.379133028900 / 10 ^ 22])]"

definition B_MICROVOLT_TO_TEMP :: coeff_table where
  "B_MICROVOLT_TO_TEMP =
    [((291, 2431),
      [9.842332100 * 10 ^ 1,
       6.997150000 / 10 ^ 1,
       - 8.476530400 / 10 ^ 4,
       1.005264400 / 10 ^ 6,
       - 8.334595200 / 10 ^ 10,
       4.550854200 / 10 ^ 13,
       - 1.552303700 / 10 ^ 16,
       2.988675000 / 10 ^ 20,
       - 2.474286000 / 10 ^ 24]),
     ((2431, 13820),
      [2.131507100 * 10 ^ 2,
       2.851050400 / 10 ^ 1,
       - 5.274288700 / 10 ^ 5,
       9.916080400 / 10 ^ 9,
       - 1.296530300 / 10 ^ 12,
       1.119587000 / 10 ^ 16,
       - 6.062519900 / 10 ^ 21,
       1.866169600 / 10 ^ 25,
       - 2.487858500 / 10 ^ 30])]"

definition B_TEMP_TO_SEEBECK :: coeff_table where
  "B_TEMP_TO_SEEBECK =
    [((0, 630.615),
      [- 2.465081834600 / 10 ^ 1,
       1.180804234200 / 10 ^ 2,
       - 3.977379490800 / 10 ^ 6,
       6.267316760400 / 10 ^ 9,
       - 8.472264620000 / 10 ^ 12,
       3.779420845640 / 10 ^ 15]),
     ((630.615, 1820),
      [2.857174747000 / 10 ^ 1,
       - 1.697702095700 / 10 ^ 4,
       4.735584049200 / 10 ^ 4,
       - 6.734137945600 / 10 ^ 7,
       5.554897006500 / 10 ^ 10,
       - 2.670925859800 / 10 ^ 13,
       6.928304857470 / 10 ^ 17,
       - 7.503266423120 / 10 ^ 21])]"

definition B_TEMP_TO_DSDT :: coeff_table where
  "B_TEMP_TO_DSDT =
    [((0, 630.615),
      [1.180804234200 / 10 ^ 2,
       - 7.954758981600 / 10 ^ 6,
       1.880195028120 / 10 ^ 8,
       - 3.388905848000 / 10 ^ 11,
       1.889710422820 / 10 ^ 14]),
     ((630.615, 1820),
      [- 1.697702095700 / 10 ^ 4,
       9.471168098400 / 10 ^ 4,
       - 2.020241383680 / 10 ^ 6,
       2.221958802600 / 10 ^ 9,
       - 1.335462929900 / 10 ^ 12,
       4.156982914482 / 10 ^ 16,
       - 5.252586738384 / 10 ^ 20])]"

definition B_TEMP_TO_MICROVOLT_POS_LEG :: coeff_table where
  "B_TEMP_TO_MICROVOLT_POS_LEG =
    [((0, 630.615),
      [0.000000000000,
       4.822787568700,
       1.565116570900 / 10 ^ 2,
       - 2.223379788200 / 10 ^ 5,
       2.833324407400 / 10 ^ 8,
       - 2.025894044700 / 10 ^ 11,
       6.148870509600 / 10 ^ 15]),
     ((630.615, 1768.1),
      [- 7.9680432282 * 10 ^ 3,
       6.39411102130 * 10 ^ 1,
       - 1.7102421410 / 10 ^ 1,
       3.05557825270 / 10 ^ 4,
       - 3.2105744492 / 10 ^ 7,
       2.09091027940 / 10 ^ 10,
       - 8.2335825426 / 10 ^ 14,
       1.78228415150 / 10 ^ 17,
       - 1.6187074187 / 10 ^ 21])]"

definition B_TEMP_TO_MICROVOLT_NEG_LEG :: coeff_table where
  "B_TEMP_TO_MICROVOLT_NEG_LEG =
    [((0, 630.615),
      [0.000000000000,
       5.069295752200,
       9.747123532000 / 10 ^ 3,
       - 2.090906471800 / 10 ^ 5,
       2.676641488300 / 10 ^ 8,
       - 1.856448752300 / 10 ^ 11,
       5.518967038600 / 10 ^ 15]),
     ((630.615, 1768.1),
      [- 4.074226366200 * 10 ^ 3,
       3.536936274300 * 10 ^ 1,
       - 8.613910931500 / 10 ^ 2,
       1.477050236200 / 10 ^ 4,
       - 1.527039962900 / 10 ^ 7,
       9.799308790500 / 10 ^ 11,
       - 3.782039439300 / 10 ^ 14,
       7.925277432800 / 10 ^ 18,
       - 6.807941157800 / 10 ^ 22])]"

definition B_TEMP_TO_SEEBECK_POS_LEG :: coeff_table where
  "B_TEMP_TO_SEEBECK_POS_LEG =
    [((0, 630.615),
      [4.822787568700,
       3.130233141800 / 10 ^ 2,
       - 6.670139364600 / 10 ^ 5,
       1.133329762960 / 10 ^ 7,
       - 1.012947022350 / 10 ^ 10,
       3.689322305760 / 10 ^ 14]),
     ((630.615, 1768.1),
      [6.39411102130 * 10 ^ 1,
       - 3.4204842820 / 10 ^ 1,
       9.16673475810 / 10 ^ 4,
       - 1.28422977968 / 10 ^ 6,
       1.04545513970 / 10 ^ 9,
       - 4.94014952556 / 10 ^ 13,
       1.42582732120 / 10 ^ 16,
       - 1.29496593496 / 10 ^ 20])]"

definition B_TEMP_TO_SEEBECK_NEG_LEG :: coeff_table where
  "B_TEMP_TO_SEEBECK_NEG_LEG =
    [((0, 630.615),
      [5.069295752200,
       1.949424706400 / 10 ^ 2,
       - 6.272719415400 / 10 ^ 5,
       1.070656595320 / 10 ^ 7,
       - 9.282243761500 / 10 ^ 11,
       3.311380223160 / 10 ^ 14]),
     ((630.615, 1768.1),
      [3.536936274300 * 10 ^ 1,
       - 1.722782186300 / 10 ^ 1,
       4.431150708600 / 10 ^ 4,
       - 6.108159851600 / 10 ^ 7,
       4.899654395250 / 10 ^ 10,
       - 2.269223663580 / 10 ^ 13,
       5.547694203960 / 10 ^ 17,
       - 5.446352926240 / 10 ^ 21])]"

subsection \<open>types/type_j.py\<close>

definition J_TEMP_TO_MICROVOLT :: coeff_table where
  "J_TEMP_TO_MICROVOLT =
    [((- 210, 760),
      [0.000000000000,
       5.038118781500 * 10 ^ 1,
       3.047583693000 / 10 ^ 2,
       - 8.568106572000 / 10 ^ 5,
       1.322819529500 / 10 ^ 7,
       - 1.705295833700 / 10 ^ 10,
       2.094809069700 / 10 ^ 13,
       - 1.253839533600 / 10 ^ 16,
       1.563172569700 / 10 ^ 20]),
     ((760, 1200),
      [2.964562568100 * 10 ^ 5,
       - 1.497612778600 * 10 ^ 3,
       3.178710392400,
       - 3.184768670100 / 10 ^ 3,
       1.572081900400 / 10 ^ 6,
       - 3.069136905600 / 10 ^ 10])]"

definition J_MICROVOLT_TO_TEMP :: coeff_table where
  "J_MICROVOLT_TO_TEMP =
    [((- 8095, 0),
      [0.000000000000,
       1.952826800000 / 10 ^ 2,
       - 1.228618500000 / 10 ^ 6,
       - 1.075217800000 / 10 ^ 9,
       - 5.908693300000 / 10 ^ 13,
       - 1.725671300000 / 10 ^ 16,
       - 2.813151300000 / 10 ^ 20,
       - 2.396337000000 / 10 ^ 24,
       - 8.382332100000 / 10 ^ 29]),
     ((0, 42919),
      [0.000000000000,
       1.978425000000 / 10 ^ 2,
       - 2.001204000000 / 10 ^ 7,
       1.036969000000 / 10 ^ 11,
       - 2.549687000000 / 10 ^ 16,
       3.585153000000 / 10 ^ 21,
       - 5.344285000000 / 10 ^ 26,
       5.099890000000 / 10 ^ 31]),
     ((42919, 69553),
      [- 3.113581870000 * 10 ^ 3,
       3.005436840000 / 10 ^ 1,
       - 9.947732300000 / 10 ^ 6,
       1.702766300000 / 10 ^ 10,
       - 1.430334680000 / 10 ^ 15,
       4.738860840000 / 10 ^ 21])]"

definition J_TEMP_TO_SEEBECK :: coeff_table where
  "J_TEMP_TO_SEEBECK =
    [((- 210, 760),
      [5.038118781500 * 10 ^ 1,
       6.095167386000 / 10 ^ 2,
       - 2.570431971600 / 10 ^ 4,
       5.291278118000 / 10 ^ 7,
       - 8.526479168500 / 10 ^ 10,
       1.256885441820 / 10 ^ 12,
       - 8.776837035200 / 10 ^ 16,
       1.250538055760 / 10 ^ 19]),
     ((760, 1200),
      [- 1.497612778600 * 10 ^ 3,
       6.357420784800,
       - 9.554306010300 / 10 ^ 3,
       6.288327601600 / 10 ^ 6,
       - 1.534568452800 / 10 ^ 9])]"

definition J_TEMP_TO_DSDT :: coeff_table where
  "J_TEMP_TO_DSDT =
    [((- 210, 760),
      [6.095167386000 / 10 ^ 2,
       - 5.140863943200 / 10 ^ 4,
       1.587383435400 / 10 ^ 6,
       - 3.410591667400 / 10 ^ 9,
       6.284427209100 / 10 ^ 12,
       - 5.266102421120 / 10 ^ 15,
       8.753766390320 / 10 ^ 19]),
     ((760, 1200),
      [6.357420784800,
       - 1.910861202060 / 10 ^ 2,
       1.886498280480 / 10 ^ 5,
       - 6.138273811200 / 10 ^ 9])]"

definition J_TEMP_TO_MICROVOLT_POS_LEG :: coeff_table where
  "J_TEMP_TO_MICROVOLT_POS_LEG =
    [((- 210, 760),
      [0.000000000000,
       1.791354855900 * 10 ^ 1,
       4.677466335800 / 10 ^ 3,
       - 7.122599299100 / 10 ^ 5,
       1.335212501600 / 10 ^ 7,
       - 1.500896263900 / 10 ^ 10,
       1.551431962500 / 10 ^ 13,
       - 7.950357212500 / 10 ^ 17,
       2.429790391000 / 10 ^ 21])]"

definition J_TEMP_TO_MICROVOLT_NEG_LEG :: coeff_table where
  "J_TEMP_TO_MICROVOLT_NEG_LEG =
    [((- 210, 760),
      [0.000000000000,
       3.246763925600 * 10 ^ 1,
       2.579837059400 / 10 ^ 2,
       - 1.445507273000 / 10 ^ 5,
       - 1.239297209300 / 10 ^ 6,
       - 2.043995698000 / 10 ^ 11,
       5.433771071800 / 10 ^ 14,
       - 4.588038123500 / 10 ^ 17,
       1.320193530600 / 10 ^ 20])]"

definition J_TEMP_TO_SEEBECK_POS_LEG :: coeff_table where
  "J_TEMP_TO_SEEBECK_POS_LEG =
    [((- 210, 760),
      [1.791354855900 * 10 ^ 1,
       9.354932671600 / 10 ^ 3,
       - 2.136779789730 / 10 ^ 4,
       5.340850006400 / 10 ^ 7,
       - 7.504481319500 / 10 ^ 10,
       9.308591775000 / 10 ^ 13,
       - 5.565250048750 / 10 ^ 16,
       1.943832312800 / 10 ^ 19])]"

definition J_TEMP_TO_SEEBECK_NEG_LEG :: coeff_table where
  "J_TEMP_TO_SEEBECK_NEG_LEG =
    [((- 210, 760),
      [3.246763925600 * 10 ^ 1,
       5.159674118800 / 10 ^ 2,
       - 4.336521819000 / 10 ^ 5,
       - 4.957188837200 / 10 ^ 6,
       - 1.021997849000 / 10 ^ 10,
       3.260262643080 / 10 ^ 13,
       - 3.210626686450 / 10 ^ 16,
       1.188174177540 / 10 ^ 19])]"

subsection \<open>types/type_n.py\<close>

definition N_TEMP_TO_MICROVOLT :: coeff_table where
  "N_TEMP_TO_MICROVOLT =
    [((- 270, 0),
      [0.000000000000,
       2.615910596200 * 10 ^ 1,
       1.095748422800 / 10 ^ 2,
       - 9.384111155400 / 10 ^ 5,
       - 4.641203975900 / 10 ^ 6,
       - 2.630335771600 / 10 ^ 7,
       - 2.265343800300 / 10 ^ 9,
       - 7.608930079100 / 10 ^ 12,
       - 9.341966783500 / 10 ^ 15]),
     ((0, 1300),
      [0.000000000000,
       2.592939460100 * 10 ^ 1,
       1.571014188000 / 10 ^ 2,
       4.382562723700 / 10 ^ 5,
       - 2.526116979400 / 10 ^ 7,
       6.431181933900 / 10 ^ 10,
       - 1.006347151900 / 10 ^ 12,
       9.974533899200 / 10 ^ 16,
       - 6.086324560700 / 10 ^ 19,
       2.084922933900 / 10 ^ 22,
       - 3.068219615100 / 10 ^ 26])]"

definition N_MICROVOLT_TO_TEMP :: coeff_table where
  "N_MICROVOLT_TO_TEMP =
    [((- 3990, 0),
      [0.000000000000,
       3.843684700000 / 10 ^ 2,
       1.101048500000 / 10 ^ 6,
       5.222931200000 / 10 ^ 9,
       7.206052500000 / 10 ^ 13,
       5.848858600000 / 10 ^ 15,
       2.775491600000 / 10 ^ 18,
       7.707516600000 / 10 ^ 22,
       1.158266500000 / 10 ^ 25,
       7.313886800000 / 10 ^ 30]),
     ((0, 20613),
      [0.000000000000,
       3.868960000000 / 10 ^ 2,
       - 1.082670000000 / 10 ^ 6,
       4.702050000000 / 10 ^ 11,
       - 2.121690000000 / 10 ^ 16,
       - 1.172720000000 / 10 ^ 19,
       5.392800000000 / 10 ^ 24,
       - 7.981560000000 / 10 ^ 29]),
     ((20613, 47513),
      [1.972485000000 * 10 ^ 1,
       3.300943000000 / 10 ^ 2,
       - 3.915159000000 / 10 ^ 7,
       9.855391000000 / 10 ^ 12,
       - 1.274371000000 / 10 ^ 16,
       7.767022000000 / 10 ^ 22]),
     ((0, 47513),
      [0.000000000000,
       3.876327700000 / 10 ^ 2,
       - 1.161234400000 / 10 ^ 6,
       6.952565500000 / 10 ^ 11,
       - 3.009007700000 / 10 ^ 15,
       8.831158400000 / 10 ^ 20,
       - 1.621383900000 / 10 ^ 24,
       1.669336200000 / 10 ^ 29,
       - 7.311754000000 / 10 ^ 35])]"

definition N_TEMP_TO_SEEBECK :: coeff_table where
  "N_TEMP_TO_SEEBECK =
    [((- 270, 0),
      [2.615910596200 * 10 ^ 1,
       2.191496845600 / 10 ^ 2,
       - 2.815233346620 / 10 ^ 4,
       - 1.856481590360 / 10 ^ 5,
       - 1.315167885800 / 10 ^ 6,
       - 1.359206280180 / 10 ^ 8,
       - 5.326251055370 / 10 ^ 11,
       - 7.473573426800 / 10 ^ 14]),
     ((0, 1300),
      [2.592939460100 * 10 ^ 1,
       3.142028376000 / 10 ^ 2,
       1.314768817110 / 10 ^ 4,
       - 1.010446791760 / 10 ^ 6,
       3.215590966950 / 10 ^ 9,
       - 6.038082911400 / 10 ^ 12,
       6.982203739440 / 10 ^ 15,
       - 4.869059648560 / 10 ^ 18,
       1.876450640510 / 10 ^ 21,
       - 3.068219615100 / 10 ^ 25])]"

definition N_TEMP_TO_DSDT :: coeff_table where
  "N_TEMP_TO_DSDT =
    [((- 270, 0),
      [2.191496845600 / 10 ^ 2,
       - 5.630466693240 / 10 ^ 4,
       - 5.569444771080 / 10 ^ 5,
       - 5.260671543200 / 10 ^ 6,
       - 6.796031401080 / 10 ^ 8,
       - 3.195750633222 / 10 ^ 10,
       - 5.231501998760 / 10 ^ 13]),
     ((0, 1300),
      [3.142028376000 / 10 ^ 2,
       2.629537634220 / 10 ^ 4,
       - 3.031340375280 / 10 ^ 6,
       1.286236386780 / 10 ^ 8,
       - 3.019041746840 / 10 ^ 11,
       4.187542616064 / 10 ^ 14,
       - 3.408247718848 / 10 ^ 17,
       1.501060432408 / 10 ^ 20,
       - 2.761397653590 / 10 ^ 24])]"

definition N_TEMP_TO_MICROVOLT_POS_LEG :: coeff_table where
  "N_TEMP_TO_MICROVOLT_POS_LEG =
    [((- 200, 0),
      [0.000000000000,
       1.074111753200 * 10 ^ 1,
       - 1.474989822900 / 10 ^ 2,
       - 3.653285783200 / 10 ^ 6,
       4.901358902900 / 10 ^ 7,
       7.222858260400 / 10 ^ 10,
       - 1.538109323600 / 10 ^ 11,
       - 7.608930079100 / 10 ^ 14,
       - 9.341966783500 / 10 ^ 17]),
     ((0, 1300),
      [0.000000000000,
       1.048400865500 * 10 ^ 1,
       - 1.101219940900 / 10 ^ 2,
       6.942094028900 / 10 ^ 5,
       - 2.195836005300 / 10 ^ 7,
       4.423649636800 / 10 ^ 10,
       - 5.792656096400 / 10 ^ 13,
       4.793166547000 / 10 ^ 16,
       - 2.397612067600 / 10 ^ 19,
       6.580494631800 / 10 ^ 23,
       - 7.560893996500 / 10 ^ 27])]"

definition N_TEMP_TO_MICROVOLT_NEG_LEG :: coeff_table where
  "N_TEMP_TO_MICROVOLT_NEG_LEG =
    [((- 200, 0),
      [0.000000000000,
       1.541798843000 * 10 ^ 1,
       2.570738245700 / 10 ^ 2,
       - 9.018782577100 / 10 ^ 5,
       - 5.365479300500 / 10 ^ 6,
       - 3.352621597600 / 10 ^ 9,
       - 7.272344767000 / 10 ^ 12]),
     ((0, 1300),
      [0.000000000000,
       1.544536594700 * 10 ^ 1,
       2.672341269000 / 10 ^ 2,
       - 2.559531305200 / 10 ^ 5,
       - 3.302809741400 / 10 ^ 8,
       2.007532297100 / 10 ^ 10,
       - 4.270815423000 / 10 ^ 13,
       5.181347352200 / 10 ^ 16,
       - 3.689712493100 / 10 ^ 19,
       1.426973470800 / 10 ^ 22,
       - 2.312130215400 / 10 ^ 26])]"

definition N_TEMP_TO_SEEBECK_POS_LEG :: coeff_table where
  "N_TEMP_TO_SEEBECK_POS_LEG =
    [((- 200, 0),
      [1.074111753200 * 10 ^ 1,
       - 2.949979645800 / 10 ^ 2,
       - 1.095985734960 / 10 ^ 5,
       1.960543561160 / 10 ^ 6,
       2.889143304160 / 10 ^ 9,
       - 9.228655941600 / 10 ^ 11,
       - 5.326251055370 / 10 ^ 13,
       - 7.473573426800 / 10 ^ 16]),
     ((0, 1300),
      [1.048400865500 * 10 ^ 1,
       - 2.202439881800 / 10 ^ 2,
       2.082628208670 / 10 ^ 4,
       - 8.783344021200 / 10 ^ 7,
       2.211824818400 / 10 ^ 9,
       - 4.054859267480 / 10 ^ 12,
       3.834533237600 / 10 ^ 15,
       - 1.917089654080 / 10 ^ 18,
       5.922445168620 / 10 ^ 21,
       - 7.560893996500 / 10 ^ 24])]"

definition N_TEMP_TO_SEEBECK_NEG_LEG :: coeff_table where
  "N_TEMP_TO_SEEBECK_NEG_LEG =
    [((- 200, 0),
      [1.541798843000 * 10 ^ 1,
       5.141476491400 / 10 ^ 2,
       - 2.705487868130 / 10 ^ 4,
       - 2.146191720200 / 10 ^ 5,
       - 1.341048639040 / 10 ^ 7,
       - 4.363409860400 / 10 ^ 10]),
     ((0, 1300),
      [1.544536594700 * 10 ^ 1,
       5.344682538000 / 10 ^ 2,
       - 7.678593915600 / 10 ^ 5,
       - 1.321123896560 / 10 ^ 7,
       1.003766148550 / 10 ^ 9,
       - 2.562489253800 / 10 ^ 12,
       3.627943146540 / 10 ^ 15,
       - 2.951769994480 / 10 ^ 18,
       1.284276123720 / 10 ^ 21,
       - 2.543343236940 / 10 ^ 24])]"

subsection \<open>types/type_r.py\<close>

definition R_TEMP_TO_MICROVOLT :: coeff_table where
  "R_TEMP_TO_MICROVOLT =
    [((- 50, 1064.18),
      [0.000000000000,
       5.289617297650,
       1.391665897820 / 10 ^ 2,
       - 2.388556930170 / 10 ^ 5,
       3.569160010630 / 10 ^ 8,
       - 4.623476662980 / 10 ^ 11,
       5.007774410340 / 10 ^ 14,
       - 3.731058861910 / 10 ^ 17,
       1.577164823670 / 10 ^ 20,
       - 2.810386252510 / 10 ^ 24]),
     ((1064.18, 1664.5),
      [2.951579253160 * 10 ^ 3,
       - 2.520612513320,
       1.595645018650 / 10 ^ 2,
       - 7.640859475760 / 10 ^ 6,
       2.053052910240 / 10 ^ 9,
       - 2.933596681730 / 10 ^ 13]),
     ((1664.5, 1768.1),
      [1.522321182090 * 10 ^ 5,
       - 2.688198885450 * 10 ^ 2,
       1.712802804710 / 10 ^ 1,
       - 3.458957064530 / 10 ^ 5,
       - 9.346339710460 / 10 ^ 12])]"

definition R_MICROVOLT_TO_TEMP :: coeff_table where
  "R_MICROVOLT_TO_TEMP =
    [((- 226, 1923),
      [0.0000000000,
       1.8891380000 / 10 ^ 1,
       - 9.3835290000 / 10 ^ 5,
       1.3068619000 / 10 ^ 7,
       - 2.2703580000 / 10 ^ 10,
       3.5145659000 / 10 ^ 13,
       - 3.8953900000 / 10 ^ 16,
       2.8239471000 / 10 ^ 19,
       - 1.2607281000 / 10 ^ 22,
       3.1353611000 / 10 ^ 26,
       - 3.3187769000 / 10 ^ 30]),
     ((1923, 13228),
      [1.334584505000 * 10 ^ 1,
       1.472644573000 / 10 ^ 1,
       - 1.844024844000 / 10 ^ 5,
       4.031129726000 / 10 ^ 9,
       - 6.249428360000 / 10 ^ 13,
       6.468412046000 / 10 ^ 17,
       - 4.458750426000 / 10 ^ 21,
       1.994710149000 / 10 ^ 25,
       - 5.313401790000 / 10 ^ 30,
       6.481976217000 / 10 ^ 35]),
     ((11361, 19739),
      [- 8.199599416000 * 10 ^ 1,
       1.553962042000 / 10 ^ 1,
       - 8.342197663000 / 10 ^ 6,
       4.279433549000 / 10 ^ 10,
       - 1.191577910000 / 10 ^ 14,
       1.492290091000 / 10 ^ 19]),
     ((19739, 21103),
      [3.406177836000 * 10 ^ 1,
       - 7.023729171000 / 10 ^ 3,
       5.582903813000 / 10 ^ 6,
       - 1.952394635000 / 10 ^ 9,
       2.560740231000 / 10 ^ 13])]"

definition R_TEMP_TO_SEEBECK :: coeff_table where
  "R_TEMP_TO_SEEBECK =
    [((- 50, 1064.18),
      [5.289617297650,
       2.783331795640 / 10 ^ 2,
       - 7.165670790510 / 10 ^ 5,
       1.427664004252 / 10 ^ 7,
       - 2.311738331490 / 10 ^ 10,
       3.004664646204 / 10 ^ 13,
       - 2.611741203370 / 10 ^ 16,
       1.261731858936 / 10 ^ 19,
       - 2.529347502259 / 10 ^ 23]),
     ((1064.18, 1664.5),
      [- 2.520612513320,
       3.191290037300 / 10 ^ 2,
       - 2.292257862280 / 10 ^ 5,
       8.212211640960 / 10 ^ 9,
       - 1.466798340865 / 10 ^ 12]),
     ((1664.5, 1768.1),
      [- 2.688198885450 * 10 ^ 2,
       3.425605609420 / 10 ^ 1,
       - 1.037691219359 / 10 ^ 4,
       - 3.738533884184 / 10 ^ 11])]"

definition R_TEMP_TO_DSDT :: coeff_table where
  "R_TEMP_TO_DSDT =
    [((- 50, 1064.18),
      [2.783331795640 / 10 ^ 2,
       - 1.433134158102 / 10 ^ 4,
       4.282992012756 / 10 ^ 7,
       - 9.246953325960 / 10 ^ 10,
       1.502332323102 / 10 ^ 12,
       - 1.567044722022 / 10 ^ 15,
       8.821230212552 / 10 ^ 19,
       - 2.026478001807 / 10 ^ 22]),
     ((1064.18, 1664.5),
      [3.191290037300 / 10 ^ 2,
       - 4.584515724560 / 10 ^ 5,
       2.463663492288 / 10 ^ 8,
       - 5.867193363460 / 10 ^ 12]),
     ((1664.5, 1768.1),
      [3.425605609420 / 10 ^ 1,
       - 2.075382438718 / 10 ^ 4,
       - 1.121560165255 / 10 ^ 10])]"

definition R_TEMP_TO_MICROVOLT_POS_LEG :: coeff_table where
  "R_TEMP_TO_MICROVOLT_POS_LEG =
    [((- 50, 1064.18),
      [0.000000000000,
       5.289617297650,
       1.391665897820 / 10 ^ 2,
       - 2.388556930170 / 10 ^ 5,
       3.569160010630 / 10 ^ 8,
       - 4.623476662980 / 10 ^ 11,
       5.007774410340 / 10 ^ 14,
       - 3.731058861910 / 10 ^ 17,
       1.577164823670 / 10 ^ 20,
       - 2.810386252510 / 10 ^ 24]),
     ((1064.18, 1664.5),
      [2.951579253160 * 10 ^ 3,
       - 2.520612513320,
       1.595645018650 / 10 ^ 2,
       - 7.640859475760 / 10 ^ 6,
       2.053052910240 / 10 ^ 9,
       - 2.933596681730 / 10 ^ 13]),
     ((1664.5, 1768.1),
      [1.522321182090 * 10 ^ 5,
       - 2.688198885450 * 10 ^ 2,
       1.712802804710 / 10 ^ 1,
       - 3.458957064530 / 10 ^ 5,
       - 9.346339710460 / 10 ^ 12])]"

definition R_TEMP_TO_MICROVOLT_NEG_LEG :: coeff_table where
  "R_TEMP_TO_MICROVOLT_NEG_LEG =
    [((- 50, 1768.1),
      [0.000000000000])]"

definition R_TEMP_TO_SEEBECK_POS_LEG :: coeff_table where
  "R_TEMP_TO_SEEBECK_POS_LEG =
    [((- 50, 1064.18),
      [5.289617297650,
       2.783331795640 / 10 ^ 2,
       - 7.165670790510 / 10 ^ 5,
       1.427664004252 / 10 ^ 7,
       - 2.311738331490 / 10 ^ 10,
       3.004664646204 / 10 ^ 13,
       - 2.611741203370 / 10 ^ 16,
       1.261731858936 / 10 ^ 19,
       - 2.529347502259 / 10 ^ 23]),
     ((1064.18, 1664.5),
      [- 2.520612513320,
       3.191290037300 / 10 ^ 2,
       - 2.292257862280 / 10 ^ 5,
       8.212211640960 / 10 ^ 9,
       - 1.466798340865 / 10 ^ 12]),
     ((1664.5, 1768.1),
      [- 2.688198885450 * 10 ^ 2,
       3.425605609420 / 10 ^ 1,
       - 1.037691219359 / 10 ^ 4,
       - 3.738533884184 / 10 ^ 11])]"

definition R_TEMP_TO_SEEBECK_NEG_LEG :: coeff_table where
  "R_TEMP_TO_SEEBECK_NEG_LEG =
    [((- 50, 1768.1),
      [0.0])]"

subsection \<open>types/type_s.py\<close>

definition S_TEMP_TO_MICROVOLT :: coeff_table where
  "S_TEMP_TO_MICROVOLT =
    [((- 50, 1064.18),
      [0.000000000000,
       5.403133086310,
       1.259342897400 / 10 ^ 2,
       - 2.324779686890 / 10 ^ 5,
       3.220288230360 / 10 ^ 8,
       - 3.314651963890 / 10 ^ 11,
       2.557442517860 / 10 ^ 14,
       - 1.250688713930 / 10 ^ 17,
       2.714431761450 / 10 ^ 21]),
     ((1064.18, 1664.5),
      [1.329004440850 * 10 ^ 3,
       3.345093113440,
       6.548051928180 / 10 ^ 3,
       - 1.648562592090 / 10 ^ 6,
       1.299896051740 / 10 ^ 11]),
     ((1664.5, 1768.1),
      [1.466282326360 * 10 ^ 5,
       - 2.584305167520 * 10 ^ 2,
       1.636935746410 / 10 ^ 1,
       - 3.304390469870 / 10 ^ 5,
       - 9.432236906120 / 10 ^ 12])]"

definition S_MICROVOLT_TO_TEMP :: coeff_table where
  "S_MICROVOLT_TO_TEMP =
    [((- 235, 1874),
      [0.000000000000,
       1.849494600000 / 10 ^ 1,
       - 8.005040620000 / 10 ^ 5,
       1.022374300000 / 10 ^ 7,
       - 1.522485920000 / 10 ^ 10,
       1.888213430000 / 10 ^ 13,
       - 1.590859410000 / 10 ^ 16,
       8.230278800000 / 10 ^ 20,
       - 2.341819440000 / 10 ^ 23,
       2.797862600000 / 10 ^ 27]),
     ((1874, 11950),
      [1.291507177000 * 10 ^ 1,
       1.466298863000 / 10 ^ 1,
       - 1.534713402000 / 10 ^ 5,
       3.145945973000 / 10 ^ 9,
       - 4.163257839000 / 10 ^ 13,
       3.187963771000 / 10 ^ 17,
       - 1.291637500000 / 10 ^ 21,
       2.183475087000 / 10 ^ 26,
       - 1.447379511000 / 10 ^ 31,
       8.211272125000 / 10 ^ 36]),
     ((10332, 17536),
      [- 8.087801117000 * 10 ^ 1,
       1.621573104000 / 10 ^ 1,
       - 8.536869453000 / 10 ^ 6,
       4.719686976000 / 10 ^ 10,
       - 1.441693666000 / 10 ^ 14,
       2.081618890000 / 10 ^ 19]),
     ((17536, 18693),
      [5.333875126000 * 10 ^ 1,
       - 1.235892298000 / 10 ^ 2,
       1.092657613000 / 10 ^ 6,
       - 4.265693686000 / 10 ^ 9,
       6.247205420000 / 10 ^ 13])]"

definition S_TEMP_TO_SEEBECK :: coeff_table where
  "S_TEMP_TO_SEEBECK =
    [((- 50, 1064.18),
      [5.403133086310,
       2.518685794800 / 10 ^ 2,
       - 6.974339060670 / 10 ^ 5,
       1.288115292144 / 10 ^ 7,
       - 1.657325963945 / 10 ^ 10,
       1.534465510716 / 10 ^ 13,
       - 8.754820751100 / 10 ^ 17,
       2.171545409160 / 10 ^ 20]),
     ((1064.18, 1664.5),
      [3.345093113440,
       1.309610385636 / 10 ^ 2,
       - 4.945637776270 / 10 ^ 6,
       5.199584069600 / 10 ^ 11]),
     ((1664.5, 1768.1),
      [- 2.584305167520 * 10 ^ 2,
       3.273871492820 / 10 ^ 1,
       - 9.913171409610 / 10 ^ 5,
       - 3.772894762448 / 10 ^ 11])]"

definition S_TEMP_TO_DSDT :: coeff_table where
  "S_TEMP_TO_DSDT =
    [((- 50, 1064.18),
      [2.518685794800 / 10 ^ 2,
       - 1.394867812134 / 10 ^ 4,
       3.864345876432 / 10 ^ 7,
       - 6.629303855780 / 10 ^ 10,
       7.672327553580 / 10 ^ 13,
       - 5.252874525770 / 10 ^ 16,
       1.520081486312 / 10 ^ 19]),
     ((1064.18, 1664.5),
      [1.309610385636 / 10 ^ 2,
       - 9.891275552540 / 10 ^ 6,
       1.559875220880 / 10 ^ 10]),
     ((1664.5, 1768.1),
      [3.273871492820 / 10 ^ 1,
       - 1.982634281922 / 10 ^ 4,
       - 1.131868428734 / 10 ^ 10])]"

definition S_TEMP_TO_MICROVOLT_POS_LEG :: coeff_table where
  "S_TEMP_TO_MICROVOLT_POS_LEG =
    [((- 50, 1064.18),
      [0.000000000000,
       5.403133086310,
       1.259342897400 / 10 ^ 2,
       - 2.324779686890 / 10 ^ 5,
       3.220288230360 / 10 ^ 8,
       - 3.314651963890 / 10 ^ 11,
       2.557442517860 / 10 ^ 14,
       - 1.250688713930 / 10 ^ 17,
       2.714431761450 / 10 ^ 21]),
     ((1064.18, 1664.5),
      [1.329004440850 * 10 ^ 3,
       3.345093113440,
       6.548051928180 / 10 ^ 3,
       - 1.648562592090 / 10 ^ 6,
       1.299896051740 / 10 ^ 11]),
     ((1664.5, 1768.1),
      [1.466282326360 * 10 ^ 5,
       - 2.584305167520 * 10 ^ 2,
       1.636935746410 / 10 ^ 1,
       - 3.304390469870 / 10 ^ 5,
       - 9.432236906120 / 10 ^ 12])]"

definition S_TEMP_TO_MICROVOLT_NEG_LEG :: coeff_table where
  "S_TEMP_TO_MICROVOLT_NEG_LEG =
    [((- 50, 1768.1),
      [0.000000000000])]"

definition S_TEMP_TO_SEEBECK_POS_LEG :: coeff_table where
  "S_TEMP_TO_SEEBECK_POS_LEG =
    [((- 50, 1064.18),
      [5.403133086310,
       2.518685794800 / 10 ^ 2,
       - 6.974339060670 / 10 ^ 5,
       1.288115292144 / 10 ^ 7,
       - 1.657325963945 / 10 ^ 10,
       1.534465510716 / 10 ^ 13,
       - 8.754820751100 / 10 ^ 17,
       2.171545409160 / 10 ^ 20]),
     ((1064.18, 1664.5),
      [3.345093113440,
       1.309610385636 / 10 ^ 2,
       - 4.945637776270 / 10 ^ 6,
       5.199584069600 / 10 ^ 11]),
     ((1664.5, 1768.1),
      [- 2.584305167520 * 10 ^ 2,
       3.273871492820 / 10 ^ 1,
       - 9.913171409610 / 10 ^ 5,
       - 3.772894762448 / 10 ^ 11])]"

definition S_TEMP_TO_SEEBECK_NEG_LEG :: coeff_table where
  "S_TEMP_TO_SEEBECK_NEG_LEG =
    [((- 50, 1768.1),
      [0.0])]"

subsection \<open>types/type_t.py\<close>

definition T_TEMP_TO_MICROVOLT :: coeff_table where
  "T_TEMP_TO_MICROVOLT =
    [((- 270, 0),
      [0.000000000000,
       3.874810636400 * 10 ^ 1,
       4.419443434700 / 10 ^ 2,
       1.184432310500 / 10 ^ 4,
       2.003297355400 / 10 ^ 5,
       9.013801955900 / 10 ^ 7,
       2.265115659300 / 10 ^ 8,
       3.607115420500 / 10 ^ 10,
       3.849393988300 / 10 ^ 12,
       2.821352192500 / 10 ^ 14,
       1.425159477900 / 10 ^ 16,
       4.876866228600 / 10 ^ 19,
       1.079553927000 / 10 ^ 21,
       1.394502706200 / 10 ^ 24,
       7.979515392700 / 10 ^ 28]),
     ((0, 400),
      [0.000000000000,
       3.874810636400 * 10 ^ 1,
       3.329222788000 / 10 ^ 2,
       2.061824340400 / 10 ^ 4,
       - 2.188225684600 / 10 ^ 6,
       1.099688092800 / 10 ^ 8,
       - 3.081575877200 / 10 ^ 11,
       4.547913529000 / 10 ^ 14,
       - 2.751290167300 / 10 ^ 17])]"

definition T_MICROVOLT_TO_TEMP :: coeff_table where
  "T_MICROVOLT_TO_TEMP =
    [((- 5603, 0),
      [0.000000000000,
       2.594919200000 / 10 ^ 2,
       - 2.131696700000 / 10 ^ 7,
       7.901869200000 / 10 ^ 10,
       4.252777700000 / 10 ^ 13,
       1.330447300000 / 10 ^ 16,
       2.024144600000 / 10 ^ 20,
       1.266817100000 / 10 ^ 24]),
     ((0, 20872),
      [0.000000000000,
       2.592800000000 / 10 ^ 2,
       - 7.602961000000 / 10 ^ 7,
       4.637791000000 / 10 ^ 11,
       - 2.165394000000 / 10 ^ 15,
       6.048144000000 / 10 ^ 20,
       - 7.293422000000 / 10 ^ 25])]"

definition T_TEMP_TO_SEEBECK :: coeff_table where
  "T_TEMP_TO_SEEBECK =
    [((- 270, 0),
      [3.874810636400 * 10 ^ 1,
       8.838886869400 / 10 ^ 2,
       3.553296931500 / 10 ^ 4,
       8.013189421600 / 10 ^ 5,
       4.506909779500 / 10 ^ 6,
       1.359069395580 / 10 ^ 7,
       2.524990843500 / 10 ^ 9,
       3.079515190640 / 10 ^ 11,
       2.539206932500 / 10 ^ 13,
       1.425159477900 / 10 ^ 15,
       5.364928850600 / 10 ^ 18,
       1.295464712400 / 10 ^ 20,
       1.812853518060 / 10 ^ 23,
       1.117132050780 / 10 ^ 26]),
     ((0, 400),
      [3.874810636400 * 10 ^ 1,
       6.658445576000 / 10 ^ 2,
       6.185473021200 / 10 ^ 4,
       - 8.752902738400 / 10 ^ 6,
       5.498440464000 / 10 ^ 8,
       - 1.848945526320 / 10 ^ 10,
       3.183539470300 / 10 ^ 13,
       - 2.201032138400 / 10 ^ 16])]"

definition T_TEMP_TO_DSDT :: coeff_table where
  "T_TEMP_TO_DSDT =
    [((- 270, 0),
      [8.838886869400 / 10 ^ 2,
       7.106593863000 / 10 ^ 4,
       2.403956826480 / 10 ^ 4,
       1.802763911800 / 10 ^ 5,
       6.795346977900 / 10 ^ 7,
       1.514994506100 / 10 ^ 8,
       2.155660633448 / 10 ^ 10,
       2.031365546000 / 10 ^ 12,
       1.282643530110 / 10 ^ 14,
       5.364928850600 / 10 ^ 17,
       1.425164712400 / 10 ^ 19,
       2.356710723278 / 10 ^ 22,
       1.562382668092 / 10 ^ 25]),
     ((0, 400),
      [6.658445576000 / 10 ^ 2,
       1.237094604240 / 10 ^ 3,
       - 2.625870821520 / 10 ^ 5,
       2.199376185600 / 10 ^ 7,
       - 9.244727631600 / 10 ^ 10,
       1.910123682180 / 10 ^ 12,
       - 1.540722496720 / 10 ^ 15])]"

definition T_TEMP_TO_MICROVOLT_POS_LEG :: coeff_table where
  "T_TEMP_TO_MICROVOLT_POS_LEG =
    [((- 270, 0),
      [0.000000000000,
       5.894548229700 * 10 ^ 1,
       2.177354516700 / 10 ^ 2,
       2.826751733100 / 10 ^ 4,
       2.256129063200 / 10 ^ 5,
       9.502026902000 / 10 ^ 7,
       2.412716823300 / 10 ^ 8,
       3.910747567800 / 10 ^ 10,
       4.217403476600 / 10 ^ 12,
       3.094671890400 / 10 ^ 14,
       1.551930033900 / 10 ^ 16,
       5.235860991100 / 10 ^ 19,
       1.136383791300 / 10 ^ 21,
       1.433054079200 / 10 ^ 24,
       7.979515392700 / 10 ^ 28]),
     ((0, 400),
      [0.000000000000,
       5.894548226500 * 10 ^ 1,
       1.509134765200 / 10 ^ 2,
       1.385988324200 / 10 ^ 4,
       - 1.827351164900 / 10 ^ 6,
       1.033635649100 / 10 ^ 8,
       - 3.065826553400 / 10 ^ 11,
       4.681530823500 / 10 ^ 14,
       - 2.974071681200 / 10 ^ 17,
       1.474503431300 / 10 ^ 20,
       - 3.659405308700 / 10 ^ 25])]"

definition T_TEMP_TO_MICROVOLT_NEG_LEG :: coeff_table where
  "T_TEMP_TO_MICROVOLT_NEG_LEG =
    [((- 270, 0),
      [0.000000000000,
       3.285355813400 * 10 ^ 1,
       2.242088818100 / 10 ^ 2,
       - 1.642329422600 / 10 ^ 4,
       - 2.528317078000 / 10 ^ 6,
       - 4.892249460900 / 10 ^ 8,
       - 1.476011640400 / 10 ^ 9,
       - 3.036321473100 / 10 ^ 11,
       - 3.680094883000 / 10 ^ 13,
       - 2.733196978500 / 10 ^ 15,
       - 1.267705560500 / 10 ^ 17,
       - 3.589947524700 / 10 ^ 20,
       - 5.682986428000 / 10 ^ 23,
       - 3.855137308500 / 10 ^ 26]),
     ((0, 1000),
      [0.000000000000,
       3.285355813800 * 10 ^ 1,
       1.820088022700 / 10 ^ 2,
       6.758360162400 / 10 ^ 5,
       - 3.608745197500 / 10 ^ 7,
       6.605244362300 / 10 ^ 10,
       - 1.574932377100 / 10 ^ 13,
       - 1.336172944200 / 10 ^ 15,
       2.227815139100 / 10 ^ 18,
       - 1.474503431300 / 10 ^ 21,
       3.659405308700 / 10 ^ 25])]"

definition T_TEMP_TO_SEEBECK_POS_LEG :: coeff_table where
  "T_TEMP_TO_SEEBECK_POS_LEG =
    [((- 270, 0),
      [5.894548229700 * 10 ^ 1,
       4.354709033400 / 10 ^ 2,
       8.480255199300 / 10 ^ 4,
       9.024516252800 / 10 ^ 5,
       4.751013451000 / 10 ^ 6,
       1.447630093980 / 10 ^ 7,
       2.737523297460 / 10 ^ 9,
       3.373922781280 / 10 ^ 11,
       2.785204701360 / 10 ^ 13,
       1.551930033900 / 10 ^ 15,
       5.759447090210 / 10 ^ 18,
       1.363660549560 / 10 ^ 20,
       1.863970303960 / 10 ^ 23,
       1.117132050780 / 10 ^ 26]),
     ((0, 400),
      [5.894548226500 * 10 ^ 1,
       3.018269530400 / 10 ^ 2,
       4.157964972600 / 10 ^ 4,
       - 7.309404659600 / 10 ^ 6,
       5.168178245500 / 10 ^ 8,
       - 2.146078587380 / 10 ^ 10,
       3.277071576450 / 10 ^ 13,
       - 2.379257345000 / 10 ^ 16,
       1.327053088170 / 10 ^ 19,
       - 3.659405308700 / 10 ^ 24])]"

definition T_TEMP_TO_SEEBECK_NEG_LEG :: coeff_table where
  "T_TEMP_TO_SEEBECK_NEG_LEG =
    [((- 270, 0),
      [3.285355813400 * 10 ^ 1,
       4.484177636200 / 10 ^ 2,
       - 4.926988267800 / 10 ^ 4,
       - 1.011326831200 / 10 ^ 5,
       - 2.935349676540 / 10 ^ 7,
       - 8.856069842400 / 10 ^ 9,
       - 2.125425031170 / 10 ^ 10,
       - 2.944075906400 / 10 ^ 12,
       - 2.459877280650 / 10 ^ 14,
       - 1.267705560500 / 10 ^ 16,
       - 3.948942277170 / 10 ^ 19,
       - 7.387882356000 / 10 ^ 22,
       - 5.011678501050 / 10 ^ 25]),
     ((0, 1000),
      [3.285355813800 * 10 ^ 1,
       3.640176045400 / 10 ^ 2,
       2.027508048720 / 10 ^ 4,
       - 1.443498079000 / 10 ^ 6,
       3.963146617380 / 10 ^ 9,
       - 9.449594262600 / 10 ^ 13,
       - 9.353210609400 / 10 ^ 15,
       1.782252111280 / 10 ^ 17,
       - 1.327053088170 / 10 ^ 20,
       3.659405308700 / 10 ^ 24])]"


section \<open>The registry (registry.py)\<close>

text \<open>
  \<open>types/type_e.py\<close> and \<open>types/type_k.py\<close> are imported by the registry but are not
  among the source files at hand. What the registry imports from them is taken as a
  parameter: the eight tables of a type module, and for type K also its four correction
  functions.
\<close>

record type_module =
  TEMP_TO_MICROVOLT :: coeff_table
  MICROVOLT_TO_TEMP :: coeff_table
  TEMP_TO_SEEBECK :: coeff_table
  TEMP_TO_DSDT :: coeff_table
  TEMP_TO_MICROVOLT_POS_LEG :: coeff_table
  TEMP_TO_MICROVOLT_NEG_LEG :: coeff_table
  TEMP_TO_SEEBECK_POS_LEG :: coeff_table
  TEMP_TO_SEEBECK_NEG_LEG :: coeff_table

record type_k_module = type_module +
  type_k_voltage_expo_function :: "real \<Rightarrow> real"
  type_k_seebeck_expo_function :: "real \<Rightarrow> real"
  type_k_dsdt_expo_function :: "real \<Rightarrow> real"
  type_k_kn_expo_function :: "real \<Rightarrow> real"

definition TYPE_K :: "type_k_module \<Rightarrow> ThermocoupleType" where
  "TYPE_K type_k =
     ThermocoupleType_init ''K'' (TEMP_TO_MICROVOLT type_k) (MICROVOLT_TO_TEMP type_k)
       (Some (TEMP_TO_SEEBECK type_k)) (Some (TEMP_TO_DSDT type_k))
       (Some (TEMP_TO_MICROVOLT_POS_LEG type_k)) (Some (TEMP_TO_MICROVOLT_NEG_LEG type_k))
       (Some (TEMP_TO_SEEBECK_POS_LEG type_k)) (Some (TEMP_TO_SEEBECK_NEG_LEG type_k))
       (Some (type_k_voltage_expo_function type_k)) (Some (type_k_seebeck_expo_function type_k))
       (Some (type_k_dsdt_expo_function type_k)) (Some (type_k_kn_expo_function type_k))"

definition TYPE_J :: ThermocoupleType where
  "TYPE_J =
     ThermocoupleType_init ''J'' J_TEMP_TO_MICROVOLT J_MICROVOLT_TO_TEMP
       (Some J_TEMP_TO_SEEBECK) (Some J_TEMP_TO_DSDT)
       (Some J_TEMP_TO_MICROVOLT_POS_LEG) (Some J_TEMP_TO_MICROVOLT_NEG_LEG)
       (Some J_TEMP_TO_SEEBECK_POS_LEG) (Some J_TEMP_TO_SEEBECK_NEG_LEG)
       None None None None"

definition TYPE_T :: ThermocoupleType where
  "TYPE_T =
     ThermocoupleType_init ''T'' T_TEMP_TO_MICROVOLT T_MICROVOLT_TO_TEMP
       (Some T_TEMP_TO_SEEBECK) (Some T_TEMP_TO_DSDT)
       (Some T_TEMP_TO_MICROVOLT_POS_LEG) (Some T_TEMP_TO_MICROVOLT_NEG_LEG)
       (Some T_TEMP_TO_SEEBECK_POS_LEG) (Some T_TEMP_TO_SEEBECK_NEG_LEG)
       None None None None"

definition TYPE_E :: "type_module \<Rightarrow> ThermocoupleType" where
  "TYPE_E type_e =
     ThermocoupleType_init ''E'' (TEMP_TO_MICROVOLT type_e) (MICROVOLT_TO_TEMP type_e)
       (Some (TEMP_TO_SEEBECK type_e)) (Some (TEMP_TO_DSDT type_e))
       (Some (TEMP_TO_MICROVOLT_POS_LEG type_e)) (Some (TEMP_TO_MICROVOLT_NEG_LEG type_e))
       (Some (TEMP_TO_SEEBECK_POS_LEG type_e)) (Some (TEMP_TO_SEEBECK_NEG_LEG type_e))
       None None None None"

definition TYPE_N :: ThermocoupleType where
  "TYPE_N =
     ThermocoupleType_init ''N'' N_TEMP_TO_MICROVOLT N_MICROVOLT_TO_TEMP
       (Some N_TEMP_TO_SEEBECK) (Some N_TEMP_TO_DSDT)
       (Some N_TEMP_TO_MICROVOLT_POS_LEG) (Some N_TEMP_TO_MICROVOLT_NEG_LEG)
       (Some N_TEMP_TO_SEEBECK_POS_LEG) (Some N_TEMP_TO_SEEBECK_NEG_LEG)
       None None None None"

definition TYPE_B :: ThermocoupleType where
  "TYPE_B =
     ThermocoupleType_init ''B'' B_TEMP_TO_MICROVOLT B_MICROVOLT_TO_TEMP
       (Some B_TEMP_TO_SEEBECK) (Some B_TEMP_TO_DSDT)
       (Some B_TEMP_TO_MICROVOLT_POS_LEG) (Some B_TEMP_TO_MICROVOLT_NEG_LEG)
       (Some B_TEMP_TO_SEEBECK_POS_LEG) (Some B_TEMP_TO_SEEBECK_NEG_LEG)
       None None None None"

definition TYPE_R :: ThermocoupleType where
  "TYPE_R =
     ThermocoupleType_init ''R'' R_TEMP_TO_MICROVOLT R_MICROVOLT_TO_TEMP
       (Some R_TEMP_TO_SEEBECK) (Some R_TEMP_TO_DSDT)
       (Some R_TEMP_TO_MICROVOLT_POS_LEG) (Some R_TEMP_TO_MICROVOLT_NEG_LEG)
       (Some R_TEMP_TO_SEEBECK_POS_LEG) (Some R_TEMP_TO_SEEBECK_NEG_LEG)
       None None None None"

definition TYPE_S :: ThermocoupleType where
  "TYPE_S =
     ThermocoupleType_init ''S'' S_TEMP_TO_MICROVOLT S_MICROVOLT_TO_TEMP
       (Some S_TEMP_TO_SEEBECK) (Some S_TEMP_TO_DSDT)
       (Some S_TEMP_TO_MICROVOLT_POS_LEG) (Some S_TEMP_TO_MICROVOLT_NEG_LEG)
       (Some S_TEMP_TO_SEEBECK_POS_LEG) (Some S_TEMP_TO_SEEBECK_NEG_LEG)
       None None None None"

text \<open>
  The dictionary \<open>THERMOCOUPLE_TYPES\<close>, as the list of its items in insertion order
  (the keys are distinct, so \<open>map_of\<close> is the lookup).
\<close>

definition THERMOCOUPLE_TYPES ::
  "type_module \<Rightarrow> type_k_module \<Rightarrow> (string \<times> ThermocoupleType) list" where
  "THERMOCOUPLE_TYPES type_e type_k =
     [(''B'', TYPE_B),
      (''E'', TYPE_E type_e),
      (''J'', TYPE_J),
      (''K'', TYPE_K type_k),
      (''N'', TYPE_N),
      (''R'', TYPE_R),
      (''S'', TYPE_S),
      (''T'', TYPE_T)]"

text \<open>
  \<open>str.upper\<close> on the strings of this model, whose characters are bytes: the letters
  \<open>a\<close> to \<open>z\<close> are mapped to \<open>A\<close> to \<open>Z\<close>, every other character is kept. Code points
  outside ASCII are not represented.
\<close>

definition char_upper :: "char \<Rightarrow> char" where
  "char_upper c =
     (if CHR ''a'' \<le> c \<and> c \<le> CHR ''z'' then char_of (of_char c - (32::nat)) else c)"

definition upper :: "string \<Rightarrow> string" where
  "upper s = map char_upper s"

text \<open>\<open>sep.join(xs)\<close>.\<close>

fun join :: "string \<Rightarrow> string list \<Rightarrow> string" where
  "join sep [] = []"
| "join sep [x] = x"
| "join sep (x # y # ys) = x @ sep @ join sep (y # ys)"

definition get_thermocouple ::
  "type_module \<Rightarrow> type_k_module \<Rightarrow> string \<Rightarrow> error + ThermocoupleType" where
  "get_thermocouple type_e type_k tc_type =
     (let tc_type = upper tc_type in
      case map_of (THERMOCOUPLE_TYPES type_e type_k) tc_type of
        None \<Rightarrow>
          (let available = join '', '' (sort (map fst (THERMOCOUPLE_TYPES type_e type_k)))
           in Inl (ValueError_not_supported
                    (''Thermocouple type '' @ [CHR 0x27] @ tc_type @ [CHR 0x27]
                     @ '' not supported. Available types: '' @ available)))
      | Some tc \<Rightarrow> Inr tc)"

section \<open>Vocabulary of the specification\<close>

text \<open>
  The specification speaks of an interval containing a value, of the first declared entry
  whose interval contains it, and of a value lying in some declared interval. These are
  written down here from its words, to state the properties of the code with.
\<close>

definition in_interval :: "real \<Rightarrow> (real \<times> real) \<times> real list \<Rightarrow> bool" where
  "in_interval x entry = (fst (fst entry) \<le> x \<and> x \<le> snd (fst entry))"

definition first_match :: "coeff_table \<Rightarrow> real \<Rightarrow> nat \<Rightarrow> bool" where
  "first_match tables x i =
     (i < length tables \<and> in_interval x (tables ! i) \<and> (\<forall>j<i. \<not> in_interval x (tables ! j)))"

definition covered :: "coeff_table \<Rightarrow> real \<Rightarrow> bool" where
  "covered tables x = (\<exists>entry\<in>set tables. in_interval x entry)"

text \<open>The additive term of an optional correction function: its value, or 0 when absent.\<close>

definition correction :: "(real \<Rightarrow> real) option \<Rightarrow> real \<Rightarrow> real" where
  "correction f x = (case f of None \<Rightarrow> 0 | Some g \<Rightarrow> g x)"

text \<open>
  The round trip of \<open>tests/test_basic.py\<close>:
  \<open>voltage = tc.temperature_to_voltage(temp); temp_back = tc.voltage_to_temperature(voltage)\<close>,
  and its assertion \<open>abs(temp - temp_back) < tol\<close>, which needs both calls to return.
\<close>

definition round_trip :: "ThermocoupleType \<Rightarrow> real \<Rightarrow> error + real" where
  "round_trip self temp =
     (case temperature_to_voltage self temp of
        Inl e \<Rightarrow> Inl e
      | Inr voltage \<Rightarrow> voltage_to_temperature self voltage)"

definition within_tolerance :: "real \<Rightarrow> real \<Rightarrow> error + real \<Rightarrow> bool" where
  "within_tolerance tol temp r =
     (case r of Inl e \<Rightarrow> False | Inr temp_back \<Rightarrow> \<bar>temp - temp_back\<bar> < tol)"

text \<open>The public interface of a model: its nine public methods.\<close>

definition public_interface ::
  "ThermocoupleType \<Rightarrow>
     (real \<Rightarrow> error + real) \<times> (real \<Rightarrow> error + real) \<times> (real \<Rightarrow> error + real) \<times>
     (real \<Rightarrow> error + real) \<times> (real \<Rightarrow> error + real) \<times> (real \<Rightarrow> error + real) \<times>
     (real \<Rightarrow> error + real) \<times> (real \<Rightarrow> error + real) \<times> (real \<Rightarrow> real \<Rightarrow> error + real)" where
  "public_interface self =
     (temperature_to_voltage self, voltage_to_temperature self, temperature_to_seebeck self,
      temperature_to_dsdt self, temperature_to_volt_pos_leg self,
      temperature_to_volt_neg_leg self, temperature_to_seebeck_pos_leg self,
      temperature_to_seebeck_neg_leg self, voltage_to_temperature_with_reference self)"

text \<open>
  Two small stand-ins for the missing modules, to run the registry on concrete inputs.
  Their numbers are not reference data.
\<close>

definition sample_type_e :: type_module where
  "sample_type_e =
     \<lparr> TEMP_TO_MICROVOLT = [((0, 100), [0, 60])],
       MICROVOLT_TO_TEMP = [((0, 6000), [0, 1 / 60])],
       TEMP_TO_SEEBECK = [((0, 100), [60])],
       TEMP_TO_DSDT = [((0, 100), [0])],
       TEMP_TO_MICROVOLT_POS_LEG = [((0, 100), [0, 30])],
       TEMP_TO_MICROVOLT_NEG_LEG = [((0, 100), [0, - 30])],
       TEMP_TO_SEEBECK_POS_LEG = [((0, 100), [30])],
       TEMP_TO_SEEBECK_NEG_LEG = [((0, 100), [- 30])] \<rparr>"

definition sample_type_k :: type_k_module where
  "sample_type_k =
     \<lparr> TEMP_TO_MICROVOLT = [((0, 100), [0, 40])],
       MICROVOLT_TO_TEMP = [((0, 4000), [0, 1 / 40])],
       TEMP_TO_SEEBECK = [((0, 100), [40])],
       TEMP_TO_DSDT = [((0, 100), [0])],
       TEMP_TO_MICROVOLT_POS_LEG = [((0, 100), [0, 25])],
       TEMP_TO_MICROVOLT_NEG_LEG = [((0, 100), [0, - 15])],
       TEMP_TO_SEEBECK_POS_LEG = [((0, 100), [25])],
       TEMP_TO_SEEBECK_NEG_LEG = [((0, 100), [- 15])],
       type_k_voltage_expo_function = (\<lambda>t. t * t / 100),
       type_k_seebeck_expo_function = (\<lambda>t. t / 50),
       type_k_dsdt_expo_function = (\<lambda>t. 1 / 50),
       type_k_kn_expo_function = (\<lambda>t. - (t * t / 100)) \<rparr>"

section \<open>Attribute access on a model\<close>

text \<open>
  What \<open>tc.attr\<close> evaluates to for a \<open>ThermocoupleType\<close> object. The class has no
  property, no \<open>__getattr__\<close> and no \<open>__slots__\<close>, so the lookup finds the attribute in
  the instance dictionary written by \<open>__init__\<close>, or among the methods of the class body, or
  raises \<open>AttributeError\<close> (kept as the attribute name its message quotes). Names that
  begin with two underscores are resolved through \<open>object\<close> as well and are not modelled:
  the result is \<open>None\<close> for them.
\<close>

datatype attribute_error = AttributeError string

datatype attr_value =
    Str string
  | Table coeff_table
  | Optional_table "coeff_table option"
  | Optional_function "(real \<Rightarrow> real) option"
  | Method string

definition instance_dict :: "ThermocoupleType \<Rightarrow> (string \<times> attr_value) list" where
  "instance_dict self =
     [(''_name'', Str (name self)),
      (''_temp_to_microvolt'', Table (temp_to_microvolt self)),
      (''_microvolt_to_temp'', Table (microvolt_to_temp self)),
      (''_temp_to_seebeck'', Table (temp_to_seebeck self)),
      (''_temp_to_dsdt'', Table (temp_to_dsdt self)),
      (''_temp_to_microvolt_pos_leg'', Optional_table (temp_to_microvolt_pos_leg self)),
      (''_temp_to_microvolt_neg_leg'', Optional_table (temp_to_microvolt_neg_leg self)),
      (''_temp_to_seebeck_pos_leg'', Optional_table (temp_to_seebeck_pos_leg self)),
      (''_temp_to_seebeck_neg_leg'', Optional_table (temp_to_seebeck_neg_leg self)),
      (''_microvolt_expo_function'', Optional_function (microvolt_expo_function self)),
      (''_seebeck_expo_function'', Optional_function (seebeck_expo_function self)),
      (''_dsdt_expo_function'', Optional_function (dsdt_expo_function self)),
      (''_microvolt_neg_leg_expo_function'',
         Optional_function (microvolt_neg_leg_expo_function self))]"

definition class_methods :: "string list" where
  "class_methods =
     [''_select_coeffs'', ''_polyval'', ''temperature_to_voltage'', ''voltage_to_temperature'',
      ''temperature_to_seebeck'', ''temperature_to_dsdt'', ''temperature_to_volt_pos_leg'',
      ''temperature_to_volt_neg_leg'', ''temperature_to_seebeck_pos_leg'',
      ''temperature_to_seebeck_neg_leg'', ''voltage_to_temperature_with_reference'']"

definition getattr :: "ThermocoupleType \<Rightarrow> string \<Rightarrow> (attribute_error + attr_value) option" where
  "getattr self attr =
     (if take 2 attr = ''__'' then None
      else case map_of (instance_dict self) attr of
        Some v \<Rightarrow> Some (Inr v)
      | None \<Rightarrow>
          if attr \<in> set class_methods then Some (Inr (Method attr))
          else Some (Inl (AttributeError attr)))"

section \<open>Range-table evaluation\<close>

lemma polyval_sum: "polyval coeffs x = (\<Sum>i<length coeffs. coeffs ! i * x ^ i)"
proof -
  have "polyval coeffs x = (\<Sum>i = 0..<length coeffs. map (\<lambda>(i, c). c * x ^ i) (enumerate 0 coeffs) ! i)"
    unfolding polyval_def by (simp add: sum_list_sum_nth)
  also have "\<dots> = (\<Sum>i = 0..<length coeffs. coeffs ! i * x ^ i)"
    by (rule sum.cong) (simp_all add: nth_enumerate_eq)
  finally show ?thesis by (simp add: lessThan_atLeast0)
qed

lemma select_coeffs_find:
  "select_coeffs self x tables =
     (case find (in_interval x) tables of
        None \<Rightarrow> Inl (ValueError_out_of_range x (name self))
      | Some entry \<Rightarrow> Inr (snd entry))"
  by (induction self x tables rule: select_coeffs.induct) (simp_all add: in_interval_def)

lemma find_first_match:
  "find (in_interval x) tables = Some entry \<longleftrightarrow> (\<exists>i. first_match tables x i \<and> entry = tables ! i)"
  unfolding first_match_def find_Some_iff by blast

lemma find_not_covered: "find (in_interval x) tables = None \<longleftrightarrow> \<not> covered tables x"
  unfolding covered_def find_None_iff by blast

lemma first_match_unique: "first_match tables x i \<Longrightarrow> first_match tables x j \<Longrightarrow> i = j"
  unfolding first_match_def by (meson linorder_neqE_nat)

lemma covered_first_match: "covered tables x \<longleftrightarrow> (\<exists>i. first_match tables x i)"
proof -
  have "covered tables x \<longleftrightarrow> find (in_interval x) tables \<noteq> None"
    by (simp add: find_not_covered)
  also have "\<dots> \<longleftrightarrow> (\<exists>entry. find (in_interval x) tables = Some entry)" by auto
  also have "\<dots> \<longleftrightarrow> (\<exists>i. first_match tables x i)" by (metis find_first_match)
  finally show ?thesis .
qed

lemma select_coeffs_first_match:
  "first_match tables x i \<Longrightarrow> select_coeffs self x tables = Inr (snd (tables ! i))"
proof -
  assume fm: "first_match tables x i"
  then have "find (in_interval x) tables = Some (tables ! i)"
    by (auto simp: find_first_match)
  then show ?thesis by (simp add: select_coeffs_find)
qed

lemma select_coeffs_not_covered:
  "\<not> covered tables x \<Longrightarrow> select_coeffs self x tables = Inl (ValueError_out_of_range x (name self))"
  by (simp add: select_coeffs_find find_not_covered[symmetric])

lemma select_coeffs_Inl:
  "select_coeffs self x tables = Inl e \<longleftrightarrow> \<not> covered tables x \<and> e = ValueError_out_of_range x (name self)"
  by (auto simp: select_coeffs_find find_not_covered[symmetric] split: option.splits)

lemma select_coeffs_Inr:
  "select_coeffs self x tables = Inr cs \<longleftrightarrow> (\<exists>i. first_match tables x i \<and> cs = snd (tables ! i))"
proof
  assume "select_coeffs self x tables = Inr cs"
  then obtain entry where "find (in_interval x) tables = Some entry" and "cs = snd entry"
    by (auto simp: select_coeffs_find split: option.splits)
  then show "\<exists>i. first_match tables x i \<and> cs = snd (tables ! i)"
    by (metis find_first_match)
next
  assume "\<exists>i. first_match tables x i \<and> cs = snd (tables ! i)"
  then show "select_coeffs self x tables = Inr cs"
    using select_coeffs_first_match by blast
qed

text \<open>
  Claim C1. For every table and every input \<open>x\<close>, the scan returns the coefficients of the
  first declared entry whose interval satisfies \<open>lo \<le> x \<le> hi\<close> (so a value on a boundary
  shared by two entries resolves to the entry declared first); such a first entry exists
  whenever some interval contains \<open>x\<close>; if no interval contains \<open>x\<close> the scan fails with the
  out-of-range error and returns no value; and the polynomial of a coefficient list at \<open>x\<close>
  is the sum of \<open>c\<^sub>k * x ^ k\<close> over its indices.
\<close>

theorem range_table_evaluation:
  "(first_match tables x i \<longrightarrow> select_coeffs self x tables = Inr (snd (tables ! i)))
   \<and> (covered tables x \<longrightarrow> (\<exists>i. first_match tables x i))
   \<and> (\<not> covered tables x \<longrightarrow>
        select_coeffs self x tables = Inl (ValueError_out_of_range x (name self)))
   \<and> polyval coeffs x = (\<Sum>k<length coeffs. coeffs ! k * x ^ k)"
  using select_coeffs_first_match select_coeffs_not_covered covered_first_match polyval_sum
  by blast

lemma B_fm0: "first_match B_TEMP_TO_MICROVOLT 630.615 0"
  by (simp add: first_match_def in_interval_def B_TEMP_TO_MICROVOLT_def)
lemma B_fm1: "in_interval 630.615 (B_TEMP_TO_MICROVOLT ! 1)"
  by (simp add: first_match_def in_interval_def B_TEMP_TO_MICROVOLT_def)
lemma B_nc: "\<not> covered B_TEMP_TO_MICROVOLT 2000"
  by (simp add: covered_def in_interval_def B_TEMP_TO_MICROVOLT_def)

lemma B_cov: "covered B_TEMP_TO_MICROVOLT 630.615"
  by (simp add: covered_def in_interval_def B_TEMP_TO_MICROVOLT_def)

text \<open>
  The forward table of type B at the boundary 630.615 shared by its two entries, and at
  2000, above both.
\<close>

theorem range_table_evaluation_witness:
  "first_match B_TEMP_TO_MICROVOLT 630.615 0
   \<and> in_interval 630.615 (B_TEMP_TO_MICROVOLT ! 1)
   \<and> select_coeffs TYPE_B 630.615 B_TEMP_TO_MICROVOLT = Inr (snd (B_TEMP_TO_MICROVOLT ! 0))
   \<and> covered B_TEMP_TO_MICROVOLT 630.615
   \<and> (\<exists>i. first_match B_TEMP_TO_MICROVOLT 630.615 i)
   \<and> \<not> covered B_TEMP_TO_MICROVOLT 2000
   \<and> select_coeffs TYPE_B 2000 B_TEMP_TO_MICROVOLT = Inl (ValueError_out_of_range 2000 ''B'')
   \<and> polyval [1, 2, 3] 2000 = 12004001"
proof -
  have n: "name TYPE_B = ''B''"
    by (simp add: TYPE_B_def ThermocoupleType_init_def)
  have p: "(\<Sum>k<length [1, 2, 3::real]. [1, 2, 3] ! k * 2000 ^ k) = (12004001::real)"
    by (simp add: lessThan_Suc)
  show ?thesis
    using range_table_evaluation [of B_TEMP_TO_MICROVOLT "630.615" 0 TYPE_B "[1, 2, 3]"]
      range_table_evaluation [of B_TEMP_TO_MICROVOLT 2000 0 TYPE_B "[1, 2, 3]"]
      B_fm0 B_fm1 B_nc B_cov n p
    by simp
qed

section \<open>Temperature to voltage and back\<close>

lemma select_coeffs_Inr_covered:
  "select_coeffs self x tables = Inr cs \<Longrightarrow> covered tables x"
  using select_coeffs_Inr covered_first_match by blast

lemma temperature_to_voltage_covered:
  "first_match (temp_to_microvolt self) temp_c i \<Longrightarrow>
     temperature_to_voltage self temp_c =
       Inr ((polyval (snd (temp_to_microvolt self ! i)) temp_c
             + correction (microvolt_expo_function self) temp_c) / 1000000)"
  by (simp add: temperature_to_voltage_def select_coeffs_first_match add_expo_def
      correction_def split: option.splits)

lemma temperature_to_voltage_not_covered:
  "\<not> covered (temp_to_microvolt self) temp_c \<Longrightarrow>
     temperature_to_voltage self temp_c = Inl (ValueError_out_of_range temp_c (name self))"
  by (simp add: temperature_to_voltage_def select_coeffs_not_covered)

lemma temperature_to_voltage_Inl:
  "temperature_to_voltage self temp_c = Inl e \<longleftrightarrow>
     \<not> covered (temp_to_microvolt self) temp_c \<and> e = ValueError_out_of_range temp_c (name self)"
  by (auto simp: temperature_to_voltage_def select_coeffs_Inl Let_def
      dest: select_coeffs_Inr_covered split: sum.splits)

lemma voltage_to_temperature_covered:
  "first_match (microvolt_to_temp self) (v * 1000000) i \<Longrightarrow>
     voltage_to_temperature self v = Inr (polyval (snd (microvolt_to_temp self ! i)) (v * 1000000))"
  by (simp add: voltage_to_temperature_def select_coeffs_first_match)

lemma voltage_to_temperature_Inl:
  "voltage_to_temperature self v = Inl e \<longleftrightarrow>
     \<not> covered (microvolt_to_temp self) (v * 1000000)
     \<and> e = ValueError_out_of_range (v * 1000000) (name self)"
  by (auto simp: voltage_to_temperature_def select_coeffs_Inl Let_def
      dest: select_coeffs_Inr_covered split: sum.splits)

text \<open>
  Claim C2. For a temperature inside some declared forward interval,
  \<open>temperature_to_voltage\<close> returns the polynomial of the first matching forward entry at
  that temperature, plus the forward correction function at that temperature when one is
  attached and plus exactly 0 when none is, the sum then divided by 1,000,000; for a
  temperature outside every declared forward interval it fails with the out-of-range
  error.
\<close>

theorem temperature_to_voltage_spec:
  "(first_match (temp_to_microvolt self) temp_c i \<longrightarrow>
      temperature_to_voltage self temp_c =
        Inr ((polyval (snd (temp_to_microvolt self ! i)) temp_c
              + correction (microvolt_expo_function self) temp_c) / 1000000))
   \<and> (covered (temp_to_microvolt self) temp_c \<longrightarrow>
        (\<exists>i. first_match (temp_to_microvolt self) temp_c i))
   \<and> correction None temp_c = 0
   \<and> correction (Some f) temp_c = f temp_c
   \<and> (\<not> covered (temp_to_microvolt self) temp_c \<longrightarrow>
        temperature_to_voltage self temp_c = Inl (ValueError_out_of_range temp_c (name self)))"
  using temperature_to_voltage_covered temperature_to_voltage_not_covered covered_first_match
  by (simp add: correction_def)

lemmas K_sample = TYPE_K_def sample_type_k_def ThermocoupleType_init_def

lemma K_fwd_fm: "first_match (temp_to_microvolt (TYPE_K sample_type_k)) 10 0"
  by (simp add: K_sample first_match_def in_interval_def)
lemma K_fwd_cov: "covered (temp_to_microvolt (TYPE_K sample_type_k)) 10"
  by (simp add: K_sample covered_def in_interval_def)
lemma K_fwd_nc: "\<not> covered (temp_to_microvolt (TYPE_K sample_type_k)) 101"
  by (simp add: K_sample covered_def in_interval_def)
lemma B_fwd_fm: "first_match (temp_to_microvolt TYPE_B) 0 0"
  by (simp add: TYPE_B_def ThermocoupleType_init_def B_TEMP_TO_MICROVOLT_def first_match_def in_interval_def)
lemma B_fwd_nc: "\<not> covered (temp_to_microvolt TYPE_B) 2000"
  by (simp add: TYPE_B_def ThermocoupleType_init_def B_nc)

text \<open>
  A type K model (with a correction function) over the stand-in module, and type B
  (without one), each inside and outside its forward table.
\<close>

theorem temperature_to_voltage_spec_witness:
  "first_match (temp_to_microvolt (TYPE_K sample_type_k)) 10 0
   \<and> covered (temp_to_microvolt (TYPE_K sample_type_k)) 10
   \<and> temperature_to_voltage (TYPE_K sample_type_k) 10 = Inr ((400 + 1) / 1000000)
   \<and> \<not> covered (temp_to_microvolt (TYPE_K sample_type_k)) 101
   \<and> temperature_to_voltage (TYPE_K sample_type_k) 101 = Inl (ValueError_out_of_range 101 ''K'')
   \<and> first_match (temp_to_microvolt TYPE_B) 0 0
   \<and> temperature_to_voltage TYPE_B 0 = Inr ((0 + 0) / 1000000)
   \<and> \<not> covered (temp_to_microvolt TYPE_B) 2000
   \<and> temperature_to_voltage TYPE_B 2000 = Inl (ValueError_out_of_range 2000 ''B'')"
proof -
  have k: "polyval (snd (temp_to_microvolt (TYPE_K sample_type_k) ! 0)) 10 = 400"
    "correction (microvolt_expo_function (TYPE_K sample_type_k)) 10 = 1"
    "name (TYPE_K sample_type_k) = ''K''"
    by (simp_all add: K_sample polyval_def correction_def enumerate_eq_zip upt_rec)
  have b: "polyval (snd (temp_to_microvolt TYPE_B ! 0)) 0 = 0"
    "correction (microvolt_expo_function TYPE_B) 0 = 0"
    "name TYPE_B = ''B''"
    by (simp_all add: TYPE_B_def ThermocoupleType_init_def B_TEMP_TO_MICROVOLT_def polyval_def
        correction_def enumerate_eq_zip upt_rec)
  show ?thesis
    using temperature_to_voltage_spec [of "TYPE_K sample_type_k" 10 0]
      temperature_to_voltage_spec [of "TYPE_K sample_type_k" 101 0]
      temperature_to_voltage_spec [of TYPE_B 0 0]
      temperature_to_voltage_spec [of TYPE_B 2000 0]
      K_fwd_fm K_fwd_cov K_fwd_nc B_fwd_fm B_fwd_nc k b
    by simp
qed

text \<open>
  Claim C3. \<open>voltage_to_temperature\<close> multiplies the voltage by 1,000,000 and returns the
  polynomial of the first matching inverse entry at that microvolt value; no correction
  term enters: the result is the same whatever correction functions the model has; and it
  fails, with the out-of-range error, exactly when the microvolt value lies outside every
  declared inverse interval.
\<close>

theorem voltage_to_temperature_spec:
  "(first_match (microvolt_to_temp self) (v * 1000000) i \<longrightarrow>
      voltage_to_temperature self v =
        Inr (polyval (snd (microvolt_to_temp self ! i)) (v * 1000000)))
   \<and> (covered (microvolt_to_temp self) (v * 1000000) \<longrightarrow>
        (\<exists>i. first_match (microvolt_to_temp self) (v * 1000000) i))
   \<and> voltage_to_temperature
        (self\<lparr>microvolt_expo_function := f1, seebeck_expo_function := f2,
              dsdt_expo_function := f3, microvolt_neg_leg_expo_function := f4\<rparr>) v
       = voltage_to_temperature self v
   \<and> ((\<exists>e. voltage_to_temperature self v = Inl e) \<longleftrightarrow>
        \<not> covered (microvolt_to_temp self) (v * 1000000))
   \<and> (\<not> covered (microvolt_to_temp self) (v * 1000000) \<longrightarrow>
        voltage_to_temperature self v
          = Inl (ValueError_out_of_range (v * 1000000) (name self)))"
proof -
  have "voltage_to_temperature
        (self\<lparr>microvolt_expo_function := f1, seebeck_expo_function := f2,
              dsdt_expo_function := f3, microvolt_neg_leg_expo_function := f4\<rparr>) v
       = voltage_to_temperature self v"
    by (simp add: voltage_to_temperature_def select_coeffs_find Let_def split: option.splits)
  then show ?thesis
    using voltage_to_temperature_covered [of self v i] voltage_to_temperature_Inl [of self v]
      covered_first_match [of "microvolt_to_temp self" "v * 1000000"]
    by simp
qed

lemma K_inv_fm: "first_match (microvolt_to_temp (TYPE_K sample_type_k)) (0.002 * 1000000) 0"
  by (simp add: K_sample first_match_def in_interval_def)
lemma K_inv_cov: "covered (microvolt_to_temp (TYPE_K sample_type_k)) (0.002 * 1000000)"
  by (simp add: K_sample covered_def in_interval_def)
lemma B_inv_nc: "\<not> covered (microvolt_to_temp TYPE_B) (0.015625 * 1000000)"
  by (simp add: TYPE_B_def ThermocoupleType_init_def B_MICROVOLT_TO_TEMP_def covered_def
      in_interval_def)

text \<open>
  The type K model over the stand-in module at 0.002 V (2000 microvolts, inside), and type
  B at 0.015625 V (15625 microvolts, above its inverse table).
\<close>

theorem voltage_to_temperature_spec_witness:
  "first_match (microvolt_to_temp (TYPE_K sample_type_k)) (0.002 * 1000000) 0
   \<and> covered (microvolt_to_temp (TYPE_K sample_type_k)) (0.002 * 1000000)
   \<and> voltage_to_temperature (TYPE_K sample_type_k) 0.002 = Inr 50
   \<and> \<not> covered (microvolt_to_temp TYPE_B) (0.015625 * 1000000)
   \<and> voltage_to_temperature TYPE_B 0.015625 = Inl (ValueError_out_of_range 15625 ''B'')"
proof -
  have k: "polyval (snd (microvolt_to_temp (TYPE_K sample_type_k) ! 0)) (0.002 * 1000000) = 50"
    by (simp add: K_sample polyval_def enumerate_eq_zip upt_rec)
  have b: "name TYPE_B = ''B''"
    by (simp add: TYPE_B_def ThermocoupleType_init_def)
  show ?thesis
    using voltage_to_temperature_spec [of "TYPE_K sample_type_k" "0.002" 0]
      voltage_to_temperature_spec [of TYPE_B "0.015625" 0]
      K_inv_fm K_inv_cov B_inv_nc k b
    by simp
qed

section \<open>Cold-junction compensation\<close>

lemma with_reference_Inl:
  "voltage_to_temperature_with_reference self v_measured t_ref = Inl e \<longleftrightarrow>
     temperature_to_voltage self t_ref = Inl e
     \<or> (\<exists>v_ref. temperature_to_voltage self t_ref = Inr v_ref
          \<and> voltage_to_temperature self (v_measured + v_ref) = Inl e)"
  by (auto simp: voltage_to_temperature_with_reference_def Let_def split: sum.splits)

lemma with_reference_Inr:
  "voltage_to_temperature_with_reference self v_measured t_ref = Inr t \<longleftrightarrow>
     (\<exists>v_ref. temperature_to_voltage self t_ref = Inr v_ref
        \<and> voltage_to_temperature self (v_measured + v_ref) = Inr t)"
  by (auto simp: voltage_to_temperature_with_reference_def Let_def split: sum.splits)

text \<open>
  Claim C4. \<open>voltage_to_temperature_with_reference\<close> computes
  \<open>v_ref = temperature_to_voltage(t_ref)\<close> and inverts \<open>v_measured + v_ref\<close>: it returns a
  temperature exactly when both inner calls return, and that temperature is the result of
  \<open>voltage_to_temperature\<close> at \<open>v_measured + v_ref\<close>; it fails exactly when one of the two
  inner calls fails, with that call's error, which is an out-of-range error.
\<close>

theorem with_reference_spec:
  "(voltage_to_temperature_with_reference self v_measured t_ref = Inr t \<longleftrightarrow>
      (\<exists>v_ref. temperature_to_voltage self t_ref = Inr v_ref
         \<and> voltage_to_temperature self (v_measured + v_ref) = Inr t))
   \<and> (voltage_to_temperature_with_reference self v_measured t_ref = Inl e \<longleftrightarrow>
        temperature_to_voltage self t_ref = Inl e
        \<or> (\<exists>v_ref. temperature_to_voltage self t_ref = Inr v_ref
             \<and> voltage_to_temperature self (v_measured + v_ref) = Inl e))
   \<and> (voltage_to_temperature_with_reference self v_measured t_ref = Inl e \<longrightarrow>
        (\<exists>x. e = ValueError_out_of_range x (name self)))"
  using with_reference_Inl [of self v_measured t_ref e] with_reference_Inr [of self v_measured t_ref t]
    temperature_to_voltage_Inl [of self t_ref e] voltage_to_temperature_Inl [of self _ e]
  by blast

lemma K_ref: "temperature_to_voltage (TYPE_K sample_type_k) 10 = Inr (401 / 1000000)"
  by (simp add: temperature_to_voltage_def K_sample polyval_def add_expo_def enumerate_eq_zip
      upt_rec)
lemma K_inv: "voltage_to_temperature (TYPE_K sample_type_k) (0.002 + 401 / 1000000) = Inr (2401 / 40)"
  by (simp add: voltage_to_temperature_def K_sample polyval_def enumerate_eq_zip upt_rec)
lemma B_ref_0: "temperature_to_voltage TYPE_B 0 = Inr 0"
  by (simp add: temperature_to_voltage_def TYPE_B_def ThermocoupleType_init_def
      B_TEMP_TO_MICROVOLT_def polyval_def add_expo_def enumerate_eq_zip upt_rec)
lemma B_ref_15625: "temperature_to_voltage TYPE_B 15625 = Inl (ValueError_out_of_range 15625 ''B'')"
  by (simp add: temperature_to_voltage_def TYPE_B_def ThermocoupleType_init_def
      B_TEMP_TO_MICROVOLT_def)
lemma B_inv_15625: "voltage_to_temperature TYPE_B 0.015625 = Inl (ValueError_out_of_range 15625 ''B'')"
  by (simp add: voltage_to_temperature_def TYPE_B_def ThermocoupleType_init_def
      B_MICROVOLT_TO_TEMP_def)

text \<open>
  The type K model over the stand-in module with both calls returning; type B with the
  inverse call failing (0.015625 V measured, reference at 0), and with the forward call
  failing (reference at 15625).
\<close>

theorem with_reference_spec_witness:
  "voltage_to_temperature_with_reference (TYPE_K sample_type_k) 0.002 10 = Inr (2401 / 40)
   \<and> voltage_to_temperature_with_reference TYPE_B 0.015625 0
       = Inl (ValueError_out_of_range 15625 ''B'')
   \<and> voltage_to_temperature_with_reference TYPE_B 0 15625
       = Inl (ValueError_out_of_range 15625 ''B'')"
proof -
  let ?e = "ValueError_out_of_range 15625 ''B''"
  have "\<exists>v_ref. temperature_to_voltage (TYPE_K sample_type_k) 10 = Inr v_ref
          \<and> voltage_to_temperature (TYPE_K sample_type_k) (0.002 + v_ref) = Inr (2401 / 40)"
    using K_ref K_inv by blast
  then have k: "voltage_to_temperature_with_reference (TYPE_K sample_type_k) 0.002 10
                  = Inr (2401 / 40)"
    using with_reference_spec [of "TYPE_K sample_type_k" "0.002" 10 "2401 / 40" ?e] by blast
  have "\<exists>v_ref. temperature_to_voltage TYPE_B 0 = Inr v_ref
          \<and> voltage_to_temperature TYPE_B (0.015625 + v_ref) = Inl ?e"
    using B_ref_0 B_inv_15625 by simp
  then have inv: "voltage_to_temperature_with_reference TYPE_B 0.015625 0 = Inl ?e"
    using with_reference_spec [of TYPE_B "0.015625" 0 0 ?e] by blast
  have fwd: "voltage_to_temperature_with_reference TYPE_B 0 15625 = Inl ?e"
    using with_reference_spec [of TYPE_B 0 15625 0 ?e] B_ref_15625 by blast
  show ?thesis using k inv fwd by blast
qed

section \<open>What an out-of-range error carries\<close>

text \<open>
  Claim C5, as stated, fails: the out-of-range error is formatted from the offending value
  and the type name only. Type B rejects the reference temperature 15625 in its forward
  table, and rejects the 15625 microvolts of 0.015625 V (reference at 0, where the forward
  call returns 0) in its inverse table, with one and the same error.
\<close>

theorem out_of_range_table_identity_counterexample:
  "temperature_to_voltage TYPE_B 15625 = Inl (ValueError_out_of_range 15625 ''B'')
   \<and> voltage_to_temperature_with_reference TYPE_B 0 15625
       = Inl (ValueError_out_of_range 15625 ''B'')
   \<and> temperature_to_voltage TYPE_B 0 = Inr 0
   \<and> voltage_to_temperature TYPE_B (0.015625 + 0) = Inl (ValueError_out_of_range 15625 ''B'')
   \<and> voltage_to_temperature_with_reference TYPE_B 0.015625 0
       = Inl (ValueError_out_of_range 15625 ''B'')"
  using B_ref_0 B_ref_15625 B_inv_15625
  by (simp add: voltage_to_temperature_with_reference_def)

text \<open>
  Claim C5, amended. Every out-of-range failure carries the offending input value and the
  type name of the model, and nothing else: in \<open>voltage_to_temperature_with_reference\<close> a
  failing forward call reports \<open>t_ref\<close>, a failing inverse call reports the microvolt value
  \<open>(v_measured + v_ref) * 1000000\<close>, both under the same type name.
\<close>

theorem out_of_range_error_content:
  "(select_coeffs self x tables = Inl e \<longrightarrow> e = ValueError_out_of_range x (name self))
   \<and> (temperature_to_voltage self t_ref = Inl e \<longrightarrow>
        voltage_to_temperature_with_reference self v_measured t_ref = Inl e
        \<and> e = ValueError_out_of_range t_ref (name self))
   \<and> (temperature_to_voltage self t_ref = Inr v_ref
        \<and> voltage_to_temperature self (v_measured + v_ref) = Inl e \<longrightarrow>
        voltage_to_temperature_with_reference self v_measured t_ref = Inl e
        \<and> e = ValueError_out_of_range ((v_measured + v_ref) * 1000000) (name self))"
  using select_coeffs_Inl [of self x tables e] temperature_to_voltage_Inl [of self t_ref e]
    voltage_to_temperature_Inl [of self "v_measured + v_ref" e]
    with_reference_Inl [of self v_measured t_ref e]
  by blast

lemma B_select_2000:
  "select_coeffs TYPE_B 2000 B_TEMP_TO_MICROVOLT = Inl (ValueError_out_of_range 2000 ''B'')"
  by (simp add: B_TEMP_TO_MICROVOLT_def TYPE_B_def ThermocoupleType_init_def)

theorem out_of_range_error_content_witness:
  "select_coeffs TYPE_B 2000 B_TEMP_TO_MICROVOLT = Inl (ValueError_out_of_range 2000 ''B'')
   \<and> temperature_to_voltage TYPE_B 15625 = Inl (ValueError_out_of_range 15625 ''B'')
   \<and> voltage_to_temperature_with_reference TYPE_B 1 15625
       = Inl (ValueError_out_of_range 15625 (name TYPE_B))
   \<and> temperature_to_voltage TYPE_B 0 = Inr 0
   \<and> voltage_to_temperature TYPE_B (0.015625 + 0) = Inl (ValueError_out_of_range 15625 ''B'')
   \<and> voltage_to_temperature_with_reference TYPE_B 0.015625 0
       = Inl (ValueError_out_of_range ((0.015625 + 0) * 1000000) (name TYPE_B))"
  using out_of_range_error_content
      [of TYPE_B 2000 B_TEMP_TO_MICROVOLT "ValueError_out_of_range 2000 ''B''" 15625 1 0]
    out_of_range_error_content
      [of TYPE_B 2000 B_TEMP_TO_MICROVOLT "ValueError_out_of_range 15625 ''B''" 15625 1 0]
    out_of_range_error_content
      [of TYPE_B 2000 B_TEMP_TO_MICROVOLT "ValueError_out_of_range 15625 ''B''" 0 "0.015625" 0]
    B_select_2000 B_ref_0 B_ref_15625 B_inv_15625
  by simp

section \<open>Optional tables\<close>

lemma select_coeffs_name:
  "name s1 = name s2 \<Longrightarrow> select_coeffs s1 x tables = select_coeffs s2 x tables"
  by (simp add: select_coeffs_find split: option.splits)

text \<open>
  Claim C6. A model constructed without the table of a quantity (the argument left at
  \<open>None\<close>) fails with \<open>NotImplementedError\<close> in the operation for that quantity, at every
  temperature: Seebeck, dSeebeck/dT, positive- and negative-leg voltage, positive- and
  negative-leg Seebeck. The operation returns no value, and the error is not the
  out-of-range error.
\<close>

theorem absent_table_unsupported:
  "temperature_to_seebeck
      (ThermocoupleType_init nm t2uv uv2t None dsdt pl nl spl snl f1 f2 f3 f4) temp_c
     = Inl (NotImplementedError (''Seebeck coefficient not implemented for Type '' @ nm))
   \<and> temperature_to_dsdt
      (ThermocoupleType_init nm t2uv uv2t sb None pl nl spl snl f1 f2 f3 f4) temp_c
     = Inl (NotImplementedError (''dSeebeck/dT not implemented for Type '' @ nm))
   \<and> temperature_to_volt_pos_leg
      (ThermocoupleType_init nm t2uv uv2t sb dsdt None nl spl snl f1 f2 f3 f4) temp_c
     = Inl (NotImplementedError (''Thermovoltage positive leg not implemented for Type '' @ nm))
   \<and> temperature_to_volt_neg_leg
      (ThermocoupleType_init nm t2uv uv2t sb dsdt pl None spl snl f1 f2 f3 f4) temp_c
     = Inl (NotImplementedError (''Thermovoltage negative leg not implemented for Type '' @ nm))
   \<and> temperature_to_seebeck_pos_leg
      (ThermocoupleType_init nm t2uv uv2t sb dsdt pl nl None snl f1 f2 f3 f4) temp_c
     = Inl (NotImplementedError
             (''Seebeck coefficient positive leg not implemented for Type '' @ nm))
   \<and> temperature_to_seebeck_neg_leg
      (ThermocoupleType_init nm t2uv uv2t sb dsdt pl nl spl None f1 f2 f3 f4) temp_c
     = Inl (NotImplementedError
             (''Seebeck coefficient negative leg not implemented for Type '' @ nm))
   \<and> NotImplementedError msg \<noteq> ValueError_out_of_range x nm"
  by (simp add: temperature_to_seebeck_def temperature_to_dsdt_def
      temperature_to_volt_pos_leg_def temperature_to_volt_neg_leg_def
      temperature_to_seebeck_pos_leg_def temperature_to_seebeck_neg_leg_def
      ThermocoupleType_init_def or_empty_def truthy_def)

lemma init_fields:
  "name (ThermocoupleType_init nm t2uv uv2t sb dsdt pl nl spl snl f1 f2 f3 f4) = nm"
  "temp_to_microvolt (ThermocoupleType_init nm t2uv uv2t sb dsdt pl nl spl snl f1 f2 f3 f4) = t2uv"
  "microvolt_to_temp (ThermocoupleType_init nm t2uv uv2t sb dsdt pl nl spl snl f1 f2 f3 f4) = uv2t"
  "temp_to_seebeck (ThermocoupleType_init nm t2uv uv2t sb dsdt pl nl spl snl f1 f2 f3 f4)
     = or_empty sb"
  "temp_to_dsdt (ThermocoupleType_init nm t2uv uv2t sb dsdt pl nl spl snl f1 f2 f3 f4)
     = or_empty dsdt"
  "temp_to_microvolt_pos_leg (ThermocoupleType_init nm t2uv uv2t sb dsdt pl nl spl snl f1 f2 f3 f4)
     = pl"
  "temp_to_microvolt_neg_leg (ThermocoupleType_init nm t2uv uv2t sb dsdt pl nl spl snl f1 f2 f3 f4)
     = nl"
  "temp_to_seebeck_pos_leg (ThermocoupleType_init nm t2uv uv2t sb dsdt pl nl spl snl f1 f2 f3 f4)
     = spl"
  "temp_to_seebeck_neg_leg (ThermocoupleType_init nm t2uv uv2t sb dsdt pl nl spl snl f1 f2 f3 f4)
     = snl"
  "microvolt_expo_function (ThermocoupleType_init nm t2uv uv2t sb dsdt pl nl spl snl f1 f2 f3 f4)
     = f1"
  "seebeck_expo_function (ThermocoupleType_init nm t2uv uv2t sb dsdt pl nl spl snl f1 f2 f3 f4)
     = f2"
  "dsdt_expo_function (ThermocoupleType_init nm t2uv uv2t sb dsdt pl nl spl snl f1 f2 f3 f4)
     = f3"
  "microvolt_neg_leg_expo_function
     (ThermocoupleType_init nm t2uv uv2t sb dsdt pl nl spl snl f1 f2 f3 f4) = f4"
  by (simp_all add: ThermocoupleType_init_def)

lemma select_coeffs_init:
  "select_coeffs (ThermocoupleType_init nm t2uv uv2t sb dsdt pl nl spl snl f1 f2 f3 f4) x tables
     = select_coeffs \<lparr>name = nm, temp_to_microvolt = [], microvolt_to_temp = [],
         temp_to_seebeck = [], temp_to_dsdt = [], temp_to_microvolt_pos_leg = None,
         temp_to_microvolt_neg_leg = None, temp_to_seebeck_pos_leg = None,
         temp_to_seebeck_neg_leg = None, microvolt_expo_function = None,
         seebeck_expo_function = None, dsdt_expo_function = None,
         microvolt_neg_leg_expo_function = None\<rparr> x tables"
  by (rule select_coeffs_name) (simp add: init_fields)

lemma interface_eq:
  assumes "name s1 = name s2" "temp_to_microvolt s1 = temp_to_microvolt s2"
    "microvolt_to_temp s1 = microvolt_to_temp s2"
    "microvolt_expo_function s1 = microvolt_expo_function s2"
    "temperature_to_seebeck s1 = temperature_to_seebeck s2"
    "temperature_to_dsdt s1 = temperature_to_dsdt s2"
    "temperature_to_volt_pos_leg s1 = temperature_to_volt_pos_leg s2"
    "temperature_to_volt_neg_leg s1 = temperature_to_volt_neg_leg s2"
    "temperature_to_seebeck_pos_leg s1 = temperature_to_seebeck_pos_leg s2"
    "temperature_to_seebeck_neg_leg s1 = temperature_to_seebeck_neg_leg s2"
  shows "public_interface s1 = public_interface s2"
proof -
  have sel: "\<And>x t. select_coeffs s1 x t = select_coeffs s2 x t"
    using assms(1) by (rule select_coeffs_name)
  have a: "temperature_to_voltage s1 = temperature_to_voltage s2"
    by (rule ext) (simp add: temperature_to_voltage_def sel assms Let_def split: sum.splits)
  have b: "voltage_to_temperature s1 = voltage_to_temperature s2"
    by (rule ext) (simp add: voltage_to_temperature_def sel assms Let_def split: sum.splits)
  have c: "voltage_to_temperature_with_reference s1 = voltage_to_temperature_with_reference s2"
    by (intro ext) (simp add: voltage_to_temperature_with_reference_def a b Let_def
        split: sum.splits)
  show ?thesis
    by (simp add: public_interface_def a b c assms)
qed

text \<open>
  Claim C10. A model constructed with an empty list for an optional table has the same
  public interface as the model constructed with that table absent, and the operation for
  that table fails with \<open>NotImplementedError\<close> at every input: it returns no value and no
  out-of-range error.
\<close>

theorem empty_table_as_absent:
  "public_interface (ThermocoupleType_init nm t2uv uv2t (Some []) dsdt pl nl spl snl f1 f2 f3 f4)
     = public_interface (ThermocoupleType_init nm t2uv uv2t None dsdt pl nl spl snl f1 f2 f3 f4)
   \<and> public_interface (ThermocoupleType_init nm t2uv uv2t sb (Some []) pl nl spl snl f1 f2 f3 f4)
     = public_interface (ThermocoupleType_init nm t2uv uv2t sb None pl nl spl snl f1 f2 f3 f4)
   \<and> public_interface (ThermocoupleType_init nm t2uv uv2t sb dsdt (Some []) nl spl snl f1 f2 f3 f4)
     = public_interface (ThermocoupleType_init nm t2uv uv2t sb dsdt None nl spl snl f1 f2 f3 f4)
   \<and> public_interface (ThermocoupleType_init nm t2uv uv2t sb dsdt pl (Some []) spl snl f1 f2 f3 f4)
     = public_interface (ThermocoupleType_init nm t2uv uv2t sb dsdt pl None spl snl f1 f2 f3 f4)
   \<and> public_interface (ThermocoupleType_init nm t2uv uv2t sb dsdt pl nl (Some []) snl f1 f2 f3 f4)
     = public_interface (ThermocoupleType_init nm t2uv uv2t sb dsdt pl nl None snl f1 f2 f3 f4)
   \<and> public_interface (ThermocoupleType_init nm t2uv uv2t sb dsdt pl nl spl (Some []) f1 f2 f3 f4)
     = public_interface (ThermocoupleType_init nm t2uv uv2t sb dsdt pl nl spl None f1 f2 f3 f4)
   \<and> temperature_to_seebeck
      (ThermocoupleType_init nm t2uv uv2t (Some []) dsdt pl nl spl snl f1 f2 f3 f4) temp_c
     = Inl (NotImplementedError (''Seebeck coefficient not implemented for Type '' @ nm))
   \<and> temperature_to_dsdt
      (ThermocoupleType_init nm t2uv uv2t sb (Some []) pl nl spl snl f1 f2 f3 f4) temp_c
     = Inl (NotImplementedError (''dSeebeck/dT not implemented for Type '' @ nm))
   \<and> temperature_to_volt_pos_leg
      (ThermocoupleType_init nm t2uv uv2t sb dsdt (Some []) nl spl snl f1 f2 f3 f4) temp_c
     = Inl (NotImplementedError (''Thermovoltage positive leg not implemented for Type '' @ nm))
   \<and> temperature_to_volt_neg_leg
      (ThermocoupleType_init nm t2uv uv2t sb dsdt pl (Some []) spl snl f1 f2 f3 f4) temp_c
     = Inl (NotImplementedError (''Thermovoltage negative leg not implemented for Type '' @ nm))
   \<and> temperature_to_seebeck_pos_leg
      (ThermocoupleType_init nm t2uv uv2t sb dsdt pl nl (Some []) snl f1 f2 f3 f4) temp_c
     = Inl (NotImplementedError
             (''Seebeck coefficient positive leg not implemented for Type '' @ nm))
   \<and> temperature_to_seebeck_neg_leg
      (ThermocoupleType_init nm t2uv uv2t sb dsdt pl nl spl (Some []) f1 f2 f3 f4) temp_c
     = Inl (NotImplementedError
             (''Seebeck coefficient negative leg not implemented for Type '' @ nm))"
proof -
  have iface:
    "public_interface (ThermocoupleType_init nm t2uv uv2t (Some []) dsdt pl nl spl snl f1 f2 f3 f4)
     = public_interface (ThermocoupleType_init nm t2uv uv2t None dsdt pl nl spl snl f1 f2 f3 f4)"
    "public_interface (ThermocoupleType_init nm t2uv uv2t sb (Some []) pl nl spl snl f1 f2 f3 f4)
     = public_interface (ThermocoupleType_init nm t2uv uv2t sb None pl nl spl snl f1 f2 f3 f4)"
    "public_interface (ThermocoupleType_init nm t2uv uv2t sb dsdt (Some []) nl spl snl f1 f2 f3 f4)
     = public_interface (ThermocoupleType_init nm t2uv uv2t sb dsdt None nl spl snl f1 f2 f3 f4)"
    "public_interface (ThermocoupleType_init nm t2uv uv2t sb dsdt pl (Some []) spl snl f1 f2 f3 f4)
     = public_interface (ThermocoupleType_init nm t2uv uv2t sb dsdt pl None spl snl f1 f2 f3 f4)"
    "public_interface (ThermocoupleType_init nm t2uv uv2t sb dsdt pl nl (Some []) snl f1 f2 f3 f4)
     = public_interface (ThermocoupleType_init nm t2uv uv2t sb dsdt pl nl None snl f1 f2 f3 f4)"
    "public_interface (ThermocoupleType_init nm t2uv uv2t sb dsdt pl nl spl (Some []) f1 f2 f3 f4)
     = public_interface (ThermocoupleType_init nm t2uv uv2t sb dsdt pl nl spl None f1 f2 f3 f4)"
    by (rule interface_eq;
        simp add: fun_eq_iff init_fields temperature_to_seebeck_def temperature_to_dsdt_def
          temperature_to_volt_pos_leg_def temperature_to_volt_neg_leg_def
          temperature_to_seebeck_pos_leg_def temperature_to_seebeck_neg_leg_def
          select_coeffs_init truthy_def or_empty_def Let_def split: sum.splits)+
  have ops:
    "temperature_to_seebeck
      (ThermocoupleType_init nm t2uv uv2t (Some []) dsdt pl nl spl snl f1 f2 f3 f4) temp_c
     = Inl (NotImplementedError (''Seebeck coefficient not implemented for Type '' @ nm))"
    "temperature_to_dsdt
      (ThermocoupleType_init nm t2uv uv2t sb (Some []) pl nl spl snl f1 f2 f3 f4) temp_c
     = Inl (NotImplementedError (''dSeebeck/dT not implemented for Type '' @ nm))"
    "temperature_to_volt_pos_leg
      (ThermocoupleType_init nm t2uv uv2t sb dsdt (Some []) nl spl snl f1 f2 f3 f4) temp_c
     = Inl (NotImplementedError (''Thermovoltage positive leg not implemented for Type '' @ nm))"
    "temperature_to_volt_neg_leg
      (ThermocoupleType_init nm t2uv uv2t sb dsdt pl (Some []) spl snl f1 f2 f3 f4) temp_c
     = Inl (NotImplementedError (''Thermovoltage negative leg not implemented for Type '' @ nm))"
    "temperature_to_seebeck_pos_leg
      (ThermocoupleType_init nm t2uv uv2t sb dsdt pl nl (Some []) snl f1 f2 f3 f4) temp_c
     = Inl (NotImplementedError
             (''Seebeck coefficient positive leg not implemented for Type '' @ nm))"
    "temperature_to_seebeck_neg_leg
      (ThermocoupleType_init nm t2uv uv2t sb dsdt pl nl spl (Some []) f1 f2 f3 f4) temp_c
     = Inl (NotImplementedError
             (''Seebeck coefficient negative leg not implemented for Type '' @ nm))"
    by (simp_all add: temperature_to_seebeck_def temperature_to_dsdt_def
      temperature_to_volt_pos_leg_def temperature_to_volt_neg_leg_def
      temperature_to_seebeck_pos_leg_def temperature_to_seebeck_neg_leg_def
      ThermocoupleType_init_def or_empty_def truthy_def)
  show ?thesis using iface ops by blast
qed

section \<open>The registry\<close>

lemma map_of_THERMOCOUPLE_TYPES:
  "map_of (THERMOCOUPLE_TYPES type_e type_k) =
     [''B'' \<mapsto> TYPE_B, ''E'' \<mapsto> TYPE_E type_e, ''J'' \<mapsto> TYPE_J, ''K'' \<mapsto> TYPE_K type_k,
      ''N'' \<mapsto> TYPE_N, ''R'' \<mapsto> TYPE_R, ''S'' \<mapsto> TYPE_S, ''T'' \<mapsto> TYPE_T]"
  by (rule ext) (simp add: THERMOCOUPLE_TYPES_def)

lemma upper_letters:
  "upper ''B'' = ''B''" "upper ''E'' = ''E''" "upper ''J'' = ''J''" "upper ''K'' = ''K''"
  "upper ''N'' = ''N''" "upper ''R'' = ''R''" "upper ''S'' = ''S''" "upper ''T'' = ''T''"
  "upper ''KJ'' = ''KJ''"
  by (simp_all add: upper_def char_upper_def less_eq_char_def)

lemma upper_lower_case: "upper ''k'' = ''K''" "upper ''x'' = ''X''"
  by code_simp+

lemma available_codes:
  "join '', '' (sort (map fst (THERMOCOUPLE_TYPES type_e type_k))) = ''B, E, J, K, N, R, S, T''"
  by (simp add: THERMOCOUPLE_TYPES_def)

lemma get_thermocouple_found:
  "map_of (THERMOCOUPLE_TYPES type_e type_k) (upper tc_type) = Some tc \<Longrightarrow>
     get_thermocouple type_e type_k tc_type = Inr tc"
  by (simp add: get_thermocouple_def)

lemma get_thermocouple_not_found:
  "map_of (THERMOCOUPLE_TYPES type_e type_k) (upper tc_type) = None \<Longrightarrow>
     get_thermocouple type_e type_k tc_type =
       Inl (ValueError_not_supported
             (''Thermocouple type '' @ [CHR 0x27] @ upper tc_type @ [CHR 0x27]
              @ '' not supported. Available types: B, E, J, K, N, R, S, T''))"
  by (simp add: get_thermocouple_def available_codes del: append.simps)

lemma registry_names:
  "name TYPE_B = ''B''" "name (TYPE_E type_e) = ''E''" "name TYPE_J = ''J''"
  "name (TYPE_K type_k) = ''K''" "name TYPE_N = ''N''" "name TYPE_R = ''R''"
  "name TYPE_S = ''S''" "name TYPE_T = ''T''"
  by (simp_all add: TYPE_B_def TYPE_E_def TYPE_J_def TYPE_K_def TYPE_N_def TYPE_R_def
      TYPE_S_def TYPE_T_def init_fields)

lemma registry_resolves:
  "get_thermocouple type_e type_k ''B'' = Inr TYPE_B"
  "get_thermocouple type_e type_k ''E'' = Inr (TYPE_E type_e)"
  "get_thermocouple type_e type_k ''J'' = Inr TYPE_J"
  "get_thermocouple type_e type_k ''K'' = Inr (TYPE_K type_k)"
  "get_thermocouple type_e type_k ''N'' = Inr TYPE_N"
  "get_thermocouple type_e type_k ''R'' = Inr TYPE_R"
  "get_thermocouple type_e type_k ''S'' = Inr TYPE_S"
  "get_thermocouple type_e type_k ''T'' = Inr TYPE_T"
  by (simp_all add: get_thermocouple_found map_of_THERMOCOUPLE_TYPES upper_letters)

lemma getattr_name: "getattr self ''name'' = Some (Inl (AttributeError ''name''))"
  by (simp add: getattr_def instance_dict_def class_methods_def)

lemma getattr_private_name: "getattr self ''_name'' = Some (Inr (Str (name self)))"
  by (simp add: getattr_def instance_dict_def)

text \<open>
  Claim C7 against the code. Each of the eight type codes B, E, J, K, N, R, S, T resolves
  through \<open>get_thermocouple\<close> to a model, and the private attribute \<open>_name\<close> of that model
  holds the requested code; but the model has no attribute \<open>name\<close>: reading \<open>tc.name\<close>, as
  \<open>test_modular_structure\<close> does, raises \<open>AttributeError\<close> for every one of them. (The
  tables and functions of the modules for E and K are parameters.)
\<close>

theorem type_coverage_name_attribute:
  "get_thermocouple type_e type_k ''B'' = Inr TYPE_B
   \<and> getattr TYPE_B ''_name'' = Some (Inr (Str ''B''))
   \<and> getattr TYPE_B ''name'' = Some (Inl (AttributeError ''name''))
   \<and> get_thermocouple type_e type_k ''E'' = Inr (TYPE_E type_e)
   \<and> getattr (TYPE_E type_e) ''_name'' = Some (Inr (Str ''E''))
   \<and> getattr (TYPE_E type_e) ''name'' = Some (Inl (AttributeError ''name''))
   \<and> get_thermocouple type_e type_k ''J'' = Inr TYPE_J
   \<and> getattr TYPE_J ''_name'' = Some (Inr (Str ''J''))
   \<and> getattr TYPE_J ''name'' = Some (Inl (AttributeError ''name''))
   \<and> get_thermocouple type_e type_k ''K'' = Inr (TYPE_K type_k)
   \<and> getattr (TYPE_K type_k) ''_name'' = Some (Inr (Str ''K''))
   \<and> getattr (TYPE_K type_k) ''name'' = Some (Inl (AttributeError ''name''))
   \<and> get_thermocouple type_e type_k ''N'' = Inr TYPE_N
   \<and> getattr TYPE_N ''_name'' = Some (Inr (Str ''N''))
   \<and> getattr TYPE_N ''name'' = Some (Inl (AttributeError ''name''))
   \<and> get_thermocouple type_e type_k ''R'' = Inr TYPE_R
   \<and> getattr TYPE_R ''_name'' = Some (Inr (Str ''R''))
   \<and> getattr TYPE_R ''name'' = Some (Inl (AttributeError ''name''))
   \<and> get_thermocouple type_e type_k ''S'' = Inr TYPE_S
   \<and> getattr TYPE_S ''_name'' = Some (Inr (Str ''S''))
   \<and> getattr TYPE_S ''name'' = Some (Inl (AttributeError ''name''))
   \<and> get_thermocouple type_e type_k ''T'' = Inr TYPE_T
   \<and> getattr TYPE_T ''_name'' = Some (Inr (Str ''T''))
   \<and> getattr TYPE_T ''name'' = Some (Inl (AttributeError ''name''))"
  by (simp add: registry_resolves getattr_name getattr_private_name registry_names)

text \<open>
  Claim C8. \<open>get_thermocouple\<close> looks the upper-cased code up: a code whose upper-case form
  is one of the eight letters returns the model registered under that letter, so codes
  that differ only in case resolve alike; any other code fails with the \<open>ValueError\<close>
  whose message names the upper-cased code and lists the supported codes.
\<close>

theorem get_thermocouple_spec:
  "(upper tc_type = ''B'' \<longrightarrow> get_thermocouple type_e type_k tc_type = Inr TYPE_B)
   \<and> (upper tc_type = ''E'' \<longrightarrow> get_thermocouple type_e type_k tc_type = Inr (TYPE_E type_e))
   \<and> (upper tc_type = ''J'' \<longrightarrow> get_thermocouple type_e type_k tc_type = Inr TYPE_J)
   \<and> (upper tc_type = ''K'' \<longrightarrow> get_thermocouple type_e type_k tc_type = Inr (TYPE_K type_k))
   \<and> (upper tc_type = ''N'' \<longrightarrow> get_thermocouple type_e type_k tc_type = Inr TYPE_N)
   \<and> (upper tc_type = ''R'' \<longrightarrow> get_thermocouple type_e type_k tc_type = Inr TYPE_R)
   \<and> (upper tc_type = ''S'' \<longrightarrow> get_thermocouple type_e type_k tc_type = Inr TYPE_S)
   \<and> (upper tc_type = ''T'' \<longrightarrow> get_thermocouple type_e type_k tc_type = Inr TYPE_T)
   \<and> (upper tc_type \<notin> set [''B'', ''E'', ''J'', ''K'', ''N'', ''R'', ''S'', ''T''] \<longrightarrow>
        get_thermocouple type_e type_k tc_type =
          Inl (ValueError_not_supported
                (''Thermocouple type '' @ [CHR 0x27] @ upper tc_type @ [CHR 0x27]
                 @ '' not supported. Available types: B, E, J, K, N, R, S, T'')))
   \<and> (upper tc_type = upper other \<longrightarrow>
        get_thermocouple type_e type_k tc_type = get_thermocouple type_e type_k other)"
proof -
  have same: "upper tc_type = upper other \<longrightarrow>
        get_thermocouple type_e type_k tc_type = get_thermocouple type_e type_k other"
    by (simp add: get_thermocouple_def)
  have missing: "upper tc_type \<notin> set [''B'', ''E'', ''J'', ''K'', ''N'', ''R'', ''S'', ''T''] \<longrightarrow>
        map_of (THERMOCOUPLE_TYPES type_e type_k) (upper tc_type) = None"
    by (simp add: map_of_THERMOCOUPLE_TYPES)
  show ?thesis
    using same missing get_thermocouple_not_found [of type_e type_k tc_type]
    by (auto simp: get_thermocouple_found map_of_THERMOCOUPLE_TYPES simp del: append.simps)
qed

text \<open>
  The codes \<open>k\<close> and \<open>K\<close> over the stand-in modules, and the unknown codes \<open>x\<close> and \<open>KJ\<close>.
\<close>

theorem get_thermocouple_spec_witness:
  "upper ''k'' = ''K''
   \<and> get_thermocouple sample_type_e sample_type_k ''k'' = Inr (TYPE_K sample_type_k)
   \<and> get_thermocouple sample_type_e sample_type_k ''k''
       = get_thermocouple sample_type_e sample_type_k ''K''
   \<and> upper ''x'' = ''X''
   \<and> get_thermocouple sample_type_e sample_type_k ''x'' =
       Inl (ValueError_not_supported
             (''Thermocouple type '' @ [CHR 0x27] @ ''X'' @ [CHR 0x27]
              @ '' not supported. Available types: B, E, J, K, N, R, S, T''))
   \<and> get_thermocouple sample_type_e sample_type_k ''KJ'' =
       Inl (ValueError_not_supported
             (''Thermocouple type '' @ [CHR 0x27] @ ''KJ'' @ [CHR 0x27]
              @ '' not supported. Available types: B, E, J, K, N, R, S, T''))"
proof -
  have k: "get_thermocouple sample_type_e sample_type_k ''k'' = Inr (TYPE_K sample_type_k)"
    and kK: "get_thermocouple sample_type_e sample_type_k ''k''
               = get_thermocouple sample_type_e sample_type_k ''K''"
    using get_thermocouple_spec [of "''k''" sample_type_e sample_type_k "''K''"]
      upper_letters(4) upper_lower_case(1)
    by metis+
  have x: "get_thermocouple sample_type_e sample_type_k ''x'' =
       Inl (ValueError_not_supported
             (''Thermocouple type '' @ [CHR 0x27] @ ''X'' @ [CHR 0x27]
              @ '' not supported. Available types: B, E, J, K, N, R, S, T''))"
    using get_thermocouple_spec [of "''x''" sample_type_e sample_type_k "''x''"]
      upper_lower_case(2)
    by simp
  have kj: "get_thermocouple sample_type_e sample_type_k ''KJ'' =
       Inl (ValueError_not_supported
             (''Thermocouple type '' @ [CHR 0x27] @ ''KJ'' @ [CHR 0x27]
              @ '' not supported. Available types: B, E, J, K, N, R, S, T''))"
    using get_thermocouple_spec [of "''KJ''" sample_type_e sample_type_k "''KJ''"]
      upper_letters(9)
    by simp
  show ?thesis
    using k kK x kj upper_lower_case by blast
qed

section \<open>The round trip\<close>

lemmas eval_defs = temperature_to_voltage_def voltage_to_temperature_def
  ThermocoupleType_init_def polyval_def add_expo_def enumerate_eq_zip upt_rec

lemma B_fwd_1000: "temperature_to_voltage TYPE_B 1000 = Inr (2453941135361 / 40000000000000)"
  by (simp add: eval_defs TYPE_B_def B_TEMP_TO_MICROVOLT_def)

lemma B_inv_1000:
  "voltage_to_temperature TYPE_B (2453941135361 / 40000000000000)
     = Inl (ValueError_out_of_range (2453941135361 / 40000000) ''B'')"
  by (simp add: eval_defs TYPE_B_def B_MICROVOLT_TO_TEMP_def)

lemma N_fwd_m100:
  "temperature_to_voltage TYPE_N (- 100) = Inr (- (1844149728581 / 1000000000000000))"
  by (simp add: eval_defs TYPE_N_def N_TEMP_TO_MICROVOLT_def)

lemma N_inv_m100:
  "\<not> within_tolerance 0.1 (- 100)
       (voltage_to_temperature TYPE_N (- (1844149728581 / 1000000000000000)))"
  by (simp add: eval_defs within_tolerance_def TYPE_N_def N_MICROVOLT_TO_TEMP_def)

text \<open>
  Claim C9 at two temperatures strictly inside a forward table. Type B at 1000: the forward
  call returns 0.0613 V, and the inverse call rejects its 61348.5 microvolts, above the
  inverse table's 13820. Type N at -100: the forward call returns -1844.1 microvolts and
  the inverse call returns a temperature more than 0.1 away from -100.
\<close>

theorem round_trip_outside_tolerance:
  "temperature_to_voltage TYPE_B 1000 = Inr (2453941135361 / 40000000000000)
   \<and> round_trip TYPE_B 1000 = Inl (ValueError_out_of_range (2453941135361 / 40000000) ''B'')
   \<and> \<not> within_tolerance 0.5 1000 (round_trip TYPE_B 1000)
   \<and> temperature_to_voltage TYPE_N (- 100) = Inr (- (1844149728581 / 1000000000000000))
   \<and> \<not> within_tolerance 0.1 (- 100) (round_trip TYPE_N (- 100))"
  using B_fwd_1000 B_inv_1000 N_fwd_m100 N_inv_m100
  by (simp add: round_trip_def within_tolerance_def)

text \<open>
  The two forward entries of type B disagree at the boundary 630.615 they share: the first
  gives about 1978.4 microvolts there, the second about 17863.7.
\<close>

lemma B_forward_boundary:
  "polyval (snd (B_TEMP_TO_MICROVOLT ! 0)) 630.615 < 1979
   \<and> 17863 < polyval (snd (B_TEMP_TO_MICROVOLT ! 1)) 630.615"
  by (simp add: B_TEMP_TO_MICROVOLT_def polyval_def enumerate_eq_zip upt_rec)

end
